theory Spec2Isabelle
  imports Complex_Main "HOL-Library.Word"
begin

unbundle bit_operations_syntax

section \<open>The document model: \<open>json_value\<close> and \<open>json_object\<close>\<close>

text \<open>
  A \<open>json_value<Ch>\<close> lives in the document's arena and is reached through pointers.
  The model keeps every value in one store, a function from addresses to values; a C++
  pointer is an \<open>addr option\<close> with \<open>None\<close> for the null pointer, so that aliasing
  between \<open>this\<close>, the argument and the siblings is whatever the addresses say.
  \<open>json_object<Ch>\<close> derives from \<open>json_value<Ch>\<close>; its three extra members are fields of
  the same record (unused in a scalar). The source's member names end in an underscore
  (\<open>owner_\<close>, \<open>prev_\<close>, ...), which is not a legal constant name here, so the underscore
  is dropped; \<open>type_\<close>, \<open>name_\<close> and \<open>value_\<close> become \<open>vtype\<close>, \<open>vname\<close> and \<open>vtext\<close>.
  A string view (\<open>name_\<close>..\<open>nameend_\<close>, \<open>value_\<close>..\<open>valueend_\<close>) is the list of code units
  it spans; the code unit type \<open>Ch\<close> is a type parameter, instantiated with words. \<open>assert\<close> is compiled out (release build): every
  check the source makes with \<open>if\<close> is in the model, the asserts are not.
\<close>

type_synonym addr = nat

datatype value_type =
  value_null | value_bool | value_number | value_string | value_array | value_object

record 'ch json_value =
  vtype :: value_type
  vname :: "'ch list"
  vtext :: "'ch list"
  owner :: "addr option"
  prev :: "addr option"
  "next" :: "addr option"
  child :: "addr option"
  lastchild :: "addr option"
  numchildren :: "64 word"

type_synonym 'ch heap = "addr \<Rightarrow> 'ch json_value"

text \<open>A dereferenced null pointer is a fault of its own, never an unspecified value.\<close>

datatype fault = NullDeref

definition Ch :: "char \<Rightarrow> 'a::len word" where
  "Ch c = of_nat (of_char c)"

definition nullstr :: "'a::len word list" where
  "nullstr = map Ch ''null''"

definition truestr :: "'a::len word list" where
  "truestr = map Ch ''true''"

definition falsestr :: "'a::len word list" where
  "falsestr = map Ch ''false''"

text \<open>The constructors \<open>json_value(type, name, nameend)\<close> and \<open>json_object(type, name, nameend)\<close>.\<close>

definition json_value_ctor :: "value_type \<Rightarrow> 'a::len word list \<Rightarrow> 'a word json_value" where
  "json_value_ctor t n =
     \<lparr> vtype = t, vname = n, vtext = (if t = value_null then nullstr else []),
       owner = None, prev = None, next = None,
       child = None, lastchild = None, numchildren = 0 \<rparr>"

definition json_object_ctor :: "value_type \<Rightarrow> 'a::len word list \<Rightarrow> 'a word json_value" where
  "json_object_ctor t n = json_value_ctor t n"

text \<open>
  \<open>json_value<Ch>::null()\<close> returns the address of one function-local static value,
  default-constructed (\<open>value_null\<close>, null name pointers). It is a non-const pointer.
\<close>

definition null_value :: addr where
  "null_value = 0"

definition is_null :: "'a json_value \<Rightarrow> bool" where
  "is_null v = (vtype v = value_null)"

definition is_array :: "'a json_value \<Rightarrow> bool" where
  "is_array v = (vtype v = value_array)"

definition is_object :: "'a json_value \<Rightarrow> bool" where
  "is_object v = (vtype v = value_object)"

text \<open>
  \<open>internal::compare(first, second, secondend)\<close>: \<open>first\<close> is NUL-terminated (the list is
  what precedes the NUL), \<open>second\<close> is counted.
\<close>

fun compare :: "'a::len word list \<Rightarrow> 'a word list \<Rightarrow> int" where
  "compare (f # fs) (s # ss) =
     (if f < s then - 1 else if s < f then 1 else compare fs ss)"
| "compare [] [] = 0"
| "compare (f # fs) [] = 1"
| "compare [] (s # ss) = - 1"

subsection \<open>Lookup by index\<close>

text \<open>
  \<open>while (++index < 0 && p) p = p->prev_;\<close> and \<open>while (index-- > 0 && p) p = p->next_;\<close>.
  \<open>index\<close> is a C \<open>int\<close>; both loops move it towards zero, so it never overflows and an
  \<open>int\<close> carries it.
\<close>

function walk_prev :: "'a heap \<Rightarrow> int \<Rightarrow> addr option \<Rightarrow> addr option" where
  "walk_prev h index p =
     (if index + 1 < 0 \<and> p \<noteq> None then walk_prev h (index + 1) (prev (h (the p))) else p)"
  by pat_completeness auto
termination
  by (relation "measure (\<lambda>(h, index, p). nat (- index))") auto

function walk_next :: "'a heap \<Rightarrow> int \<Rightarrow> addr option \<Rightarrow> addr option" where
  "walk_next h index p =
     (if index > 0 \<and> p \<noteq> None then walk_next h (index - 1) (next (h (the p))) else p)"
  by pat_completeness auto
termination
  by (relation "measure (\<lambda>(h, index, p). nat index)") auto

declare walk_prev.simps [simp del] walk_next.simps [simp del]

text \<open>
  \<open>json_object::at(int index)\<close>. The local \<open>p\<close> is declared without an initialiser and the
  non-negative branch never assigns it before the loop reads it; \<open>p_uninit\<close> is the
  indeterminate value the local holds there. The result is a reference: the address of
  the child, or of the sentinel.
\<close>

definition at_index :: "'a heap \<Rightarrow> addr \<Rightarrow> addr option \<Rightarrow> int \<Rightarrow> addr" where
  "at_index h this p_uninit index =
     (let p = (if index < 0 then walk_prev h index (lastchild (h this))
               else walk_next h index p_uninit)
      in case p of Some a \<Rightarrow> a | None \<Rightarrow> null_value)"

subsection \<open>Mutators\<close>

text \<open>\<open>json_object::add_child\<close>, the private helper that appends.\<close>

definition add_child :: "'a heap \<Rightarrow> addr \<Rightarrow> addr \<Rightarrow> fault + 'a heap" where
  "add_child h this c =
     (let h1 = h(c := (h c)\<lparr>owner := Some this\<rparr>);
          h2 = h1(c := (h1 c)\<lparr>prev := None, next := None\<rparr>)
      in if child (h2 this) = None
         then (let h3 = h2(this := (h2 this)\<lparr>child := Some c, lastchild := Some c\<rparr>)
               in Inr (h3(this := (h3 this)\<lparr>numchildren := numchildren (h3 this) + 1\<rparr>)))
         else (let h3 = h2(c := (h2 c)\<lparr>prev := lastchild (h2 this)\<rparr>)
               in case lastchild (h3 this) of
                    None \<Rightarrow> Inl NullDeref
                  | Some l \<Rightarrow>
                      (let h4 = h3(l := (h3 l)\<lparr>next := Some c\<rparr>);
                           h5 = h4(this := (h4 this)\<lparr>lastchild := Some c\<rparr>)
                       in Inr (h5(this := (h5 this)\<lparr>numchildren := numchildren (h5 this) + 1\<rparr>)))))"

text \<open>\<open>json_object::array_add\<close>.\<close>

definition array_add :: "'a heap \<Rightarrow> addr \<Rightarrow> addr option \<Rightarrow> fault + ('a heap \<times> bool)" where
  "array_add h this val =
     (case val of
        None \<Rightarrow> Inr (h, False)
      | Some v \<Rightarrow>
          if \<not> is_array (h this) \<or> owner (h v) \<noteq> None then Inr (h, False)
          else (case add_child h this v of
                  Inl e \<Rightarrow> Inl e
                | Inr h' \<Rightarrow> Inr (h', True)))"

text \<open>
  \<open>json_object::array_insert\<close> walks a pointer to a pointer, \<open>json_value<Ch>** pp\<close>. It
  points at one of four kinds of slot: the container's \<open>child_\<close> or \<open>lastchild_\<close>, or a
  value's \<open>prev_\<close> or \<open>next_\<close>.
\<close>

datatype slot = Slot_child | Slot_lastchild | Slot_prev addr | Slot_next addr

fun deref :: "'a heap \<Rightarrow> addr \<Rightarrow> slot \<Rightarrow> addr option" where
  "deref h this Slot_child = child (h this)"
| "deref h this Slot_lastchild = lastchild (h this)"
| "deref h this (Slot_prev a) = prev (h a)"
| "deref h this (Slot_next a) = next (h a)"

fun assign :: "'a heap \<Rightarrow> addr \<Rightarrow> slot \<Rightarrow> addr option \<Rightarrow> 'a heap" where
  "assign h this Slot_child x = h(this := (h this)\<lparr>child := x\<rparr>)"
| "assign h this Slot_lastchild x = h(this := (h this)\<lparr>lastchild := x\<rparr>)"
| "assign h this (Slot_prev a) x = h(a := (h a)\<lparr>prev := x\<rparr>)"
| "assign h this (Slot_next a) x = h(a := (h a)\<lparr>next := x\<rparr>)"

text \<open>\<open>while (++index < 0 && *pp) pp = &(*pp)->prev_;\<close>\<close>

function insert_walk_prev :: "'a heap \<Rightarrow> addr \<Rightarrow> int \<Rightarrow> slot \<Rightarrow> slot" where
  "insert_walk_prev h this index pp =
     (if index + 1 < 0 \<and> deref h this pp \<noteq> None
      then insert_walk_prev h this (index + 1) (Slot_prev (the (deref h this pp)))
      else pp)"
  by pat_completeness auto
termination
  by (relation "measure (\<lambda>(h, this, index, pp). nat (- index))") auto

text \<open>\<open>while (index-- > 0 && *pp) pp = &(*pp)->next_;\<close>\<close>

function insert_walk_next :: "'a heap \<Rightarrow> addr \<Rightarrow> int \<Rightarrow> slot \<Rightarrow> slot" where
  "insert_walk_next h this index pp =
     (if index > 0 \<and> deref h this pp \<noteq> None
      then insert_walk_next h this (index - 1) (Slot_next (the (deref h this pp)))
      else pp)"
  by pat_completeness auto
termination
  by (relation "measure (\<lambda>(h, this, index, pp). nat index)") auto

declare insert_walk_prev.simps [simp del] insert_walk_next.simps [simp del]

definition INT_MIN :: int where
  "INT_MIN = - (2 ^ 31)"

definition INT_MAX :: int where
  "INT_MAX = 2 ^ 31 - 1"

text \<open>\<open>json_object::array_insert\<close>, statement by statement.\<close>

definition array_insert :: "'a heap \<Rightarrow> addr \<Rightarrow> addr option \<Rightarrow> int \<Rightarrow> 'a heap \<times> bool" where
  "array_insert h this val index =
     (case val of
        None \<Rightarrow> (h, False)
      | Some v \<Rightarrow>
          if \<not> is_array (h this) \<or> owner (h v) \<noteq> None then (h, False)
          else
            (let (pp, h3) =
               (if index < 0 then
                  (let pp = insert_walk_prev h this index Slot_lastchild;
                       h1 = h(v := (h v)\<lparr>prev := deref h this pp\<rparr>);
                       h2 = (case prev (h1 v) of
                               Some q \<Rightarrow> h1(q := (h1 q)\<lparr>next := Some v\<rparr>)
                             | None \<Rightarrow> h1(this := (h1 this)\<lparr>child := Some v\<rparr>));
                       h3 = h2(v := (h2 v)\<lparr>next :=
                               (case deref h2 this pp of
                                  Some q \<Rightarrow> next (h2 q) | None \<Rightarrow> None)\<rparr>)
                   in (pp, h3))
                else
                  (let pp = insert_walk_next h this index Slot_child;
                       h1 = h(v := (h v)\<lparr>next := deref h this pp\<rparr>);
                       h2 = (case next (h1 v) of
                               Some q \<Rightarrow> h1(q := (h1 q)\<lparr>prev := Some v\<rparr>)
                             | None \<Rightarrow> h1(this := (h1 this)\<lparr>lastchild := Some v\<rparr>));
                       h3 = h2(v := (h2 v)\<lparr>prev :=
                               (case deref h2 this pp of
                                  Some q \<Rightarrow> prev (h2 q) | None \<Rightarrow> None)\<rparr>)
                   in (pp, h3)));
                 h4 = assign h3 this pp (Some v)
             in (h4(this := (h4 this)\<lparr>numchildren := numchildren (h4 this) + 1\<rparr>), True)))"

text \<open>
  \<open>json_object::object_set\<close>. The scan follows \<open>next_\<close> pointers for as long as they are
  not null, so on a store whose chain is cyclic it does not return: the loop is a partial
  function and \<open>None\<close> is "does not return". \<open>name\<close> is a NUL-terminated string or a null
  pointer; the optional out-parameter \<open>old\<close> is returned as the third component.
\<close>

partial_function (option) object_set_scan ::
  "'a::len word heap \<Rightarrow> addr \<Rightarrow> 'a word list \<Rightarrow> addr \<Rightarrow> slot \<Rightarrow> addr option
     \<Rightarrow> ('a word heap \<times> slot \<times> addr option) option" where
  "object_set_scan h this nm v pp old =
     (case deref h this pp of
        None \<Rightarrow> Some (h, pp, old)
      | Some q \<Rightarrow>
          if compare nm (vname (h q)) = 0
          then (let h1 = h(v := (h v)\<lparr>prev := prev (h q)\<rparr>);
                    h2 = h1(v := (h1 v)\<lparr>next := next (h1 q)\<rparr>);
                    h3 = (case next (h2 v) of
                            Some n \<Rightarrow> h2(n := (h2 n)\<lparr>prev := Some v\<rparr>)
                          | None \<Rightarrow> h2)
                in Some (assign h3 this pp (Some v), pp, Some q))
          else object_set_scan h this nm v (Slot_next q) old)"

definition object_set ::
  "'a::len word heap \<Rightarrow> addr \<Rightarrow> 'a word list option \<Rightarrow> addr option
     \<Rightarrow> (fault + ('a word heap \<times> bool \<times> addr option)) option" where
  "object_set h this name val =
     (if \<not> is_object (h this) then Some (Inr (h, False, None))
      else if name = None \<or> name = Some [] then Some (Inr (h, False, None))
      else if val = None \<or> owner (h (the val)) \<noteq> None then Some (Inr (h, False, None))
      else
        (let v = the val; nm = the name;
             h0 = h(v := (h v)\<lparr>vname := nm\<rparr>)
         in case object_set_scan h0 this nm v Slot_child None of
              None \<Rightarrow> None
            | Some (h1, pp, old) \<Rightarrow>
                if deref h1 this pp = None
                then (case add_child h1 this v of
                        Inl e \<Rightarrow> Some (Inl e)
                      | Inr h2 \<Rightarrow> Some (Inr (h2, True, old)))
                else Some (Inr (h1, True, old))))"

text \<open>
  \<open>json_object::remove_all\<close>. \<open>p\<close> is set once, before the loop, and the loop body reads
  \<open>p->next_\<close> on every round. The loop is entered only when \<open>child_\<close> is not null, and
  \<open>p\<close> is the \<open>child_\<close> of that moment, so \<open>p\<close> is never null inside it.
\<close>

partial_function (option) remove_all_loop :: "'a heap \<Rightarrow> addr \<Rightarrow> addr \<Rightarrow> 'a heap option" where
  "remove_all_loop h this p =
     (case child (h this) of
        None \<Rightarrow> Some h
      | Some c \<Rightarrow>
          (let nxt = next (h p);
               h1 = h(c := (h c)\<lparr>owner := None\<rparr>);
               h2 = h1(c := (h1 c)\<lparr>next := None\<rparr>);
               h3 = h2(c := (h2 c)\<lparr>prev := None\<rparr>)
           in remove_all_loop (h3(this := (h3 this)\<lparr>child := nxt\<rparr>)) this p))"

definition remove_all :: "'a heap \<Rightarrow> addr \<Rightarrow> 'a heap option" where
  "remove_all h this =
     (case (case child (h this) of
              None \<Rightarrow> Some h
            | Some p \<Rightarrow> remove_all_loop h this p) of
        None \<Rightarrow> None
      | Some h1 \<Rightarrow>
          (let h2 = h1(this := (h1 this)\<lparr>numchildren := 0\<rparr>);
               h3 = h2(this := (h2 this)\<lparr>lastchild := None\<rparr>)
           in Some (h3(this := (h3 this)\<lparr>child := lastchild (h3 this)\<rparr>))))"

subsection \<open>The sibling-list invariant\<close>

text \<open>
  The children of \<open>this\<close> form a consistent doubly-linked list of length \<open>n\<close>: starting
  from \<open>child_\<close> with no predecessor, every child's \<open>prev_\<close> is the child before it, every
  child's \<open>owner_\<close> is \<open>this\<close>, the chain ends in a null \<open>next_\<close> after exactly \<open>n\<close> children,
  and \<open>lastchild_\<close> is the last of them.
\<close>

fun children_linked :: "'ch heap \<Rightarrow> addr \<Rightarrow> addr option \<Rightarrow> addr option \<Rightarrow> nat \<Rightarrow> bool" where
  "children_linked h this pv None 0 = (lastchild (h this) = pv)"
| "children_linked h this pv (Some c) (Suc n) =
     (prev (h c) = pv \<and> owner (h c) = Some this \<and>
      children_linked h this (Some c) (next (h c)) n)"
| "children_linked h this pv p n = False"

definition consistent_children :: "'ch heap \<Rightarrow> addr \<Rightarrow> bool" where
  "consistent_children h this =
     children_linked h this None (child (h this)) (unat (numchildren (h this)))"

text \<open>
  The children of \<open>this\<close>, in order, are \<open>xs\<close>: the \<open>next_\<close> chain from \<open>child_\<close> runs
  through \<open>xs\<close> and ends in a null pointer, and the \<open>prev_\<close> chain from \<open>lastchild_\<close>
  runs through \<open>xs\<close> backwards and ends in a null pointer.
\<close>

primrec next_path :: "'ch heap \<Rightarrow> addr option \<Rightarrow> addr list \<Rightarrow> bool" where
  "next_path h p [] = (p = None)"
| "next_path h p (a # as) = (p = Some a \<and> next_path h (next (h a)) as)"

primrec prev_path :: "'ch heap \<Rightarrow> addr option \<Rightarrow> addr list \<Rightarrow> bool" where
  "prev_path h p [] = (p = None)"
| "prev_path h p (a # as) = (p = Some a \<and> prev_path h (prev (h a)) as)"

definition children_are :: "'ch heap \<Rightarrow> addr \<Rightarrow> addr list \<Rightarrow> bool" where
  "children_are h this xs =
     (next_path h (child (h this)) xs \<and> prev_path h (lastchild (h this)) (rev xs))"

subsection \<open>Example stores\<close>

text \<open>
  A store of an 8-bit document in which every address holds a default-constructed value
  (so does \<open>null_value\<close>, the sentinel), address 1 an empty array and address 10 an empty
  object; the arrays with one and with three children are built by \<open>array_add\<close>.
\<close>

definition store0 :: "8 word heap" where
  "store0 = (\<lambda>a. json_value_ctor value_null [])
              (1 := json_object_ctor value_array [], 10 := json_object_ctor value_object [])"

definition heap_of :: "fault + ('ch heap \<times> bool) \<Rightarrow> 'ch heap \<Rightarrow> 'ch heap" where
  "heap_of r h = (case r of Inr (h', ok) \<Rightarrow> h' | Inl e \<Rightarrow> h)"

definition store1 :: "8 word heap" where
  "store1 = heap_of (array_add store0 1 (Some 2)) store0"

definition store2 :: "8 word heap" where
  "store2 = heap_of (array_add store1 1 (Some 3)) store1"

definition store3 :: "8 word heap" where
  "store3 = heap_of (array_add store2 1 (Some 4)) store2"

section \<open>Conversion of a value's text to a number\<close>

text \<open>
  \<open>internal::value_to_number(start, end)\<close> on the range of code units \<open>[start, end)\<close>.
  A C++ \<open>double\<close> is modelled by a real number: the accumulators \<open>num\<close>, \<open>fact\<close> and
  \<open>exp\<close> never decide a branch, so the control flow of the model is the control flow
  of the code whatever the rounding. (\<open>fact\<close> and \<open>exp\<close> are written \<open>fac\<close> and \<open>ex\<close>.)
  The outer \<open>while (start < end)\<close> has a \<open>default: break;\<close> that leaves the
  \<open>switch\<close>, not the loop, so the loop may run forever: it is a partial function with
  \<open>None\<close> for "does not return". The inner exponent loop always moves on.
\<close>

definition lookup_double :: "real list" where
  "lookup_double = [0, 1, 2, 3, 4, 5, 6, 7, 8, 9]"

definition is_digit_case :: "'a::len word \<Rightarrow> bool" where
  "is_digit_case c = (c \<in> set (map Ch ''0123456789''))"

fun exponent_loop :: "'a::len word list \<Rightarrow> real \<Rightarrow> real" where
  "exponent_loop [] ex = ex"
| "exponent_loop (c # cs) ex =
     (if is_digit_case c
      then exponent_loop cs (ex * 10 + lookup_double ! (unat c - unat (Ch CHR ''0'' :: 'a word)))
      else ex)"

partial_function (option) number_loop ::
  "'a::len word list \<Rightarrow> real \<Rightarrow> real \<Rightarrow> bool \<Rightarrow> real option" where
  "number_loop s num fac period =
     (case s of
        [] \<Rightarrow> Some (num * fac)
      | c # cs \<Rightarrow>
          if is_digit_case c
          then number_loop cs
                 (num * 10 + lookup_double ! (unat c - unat (Ch CHR ''0'' :: 'a word)))
                 (if period then fac / 10 else fac) period
          else if c = Ch CHR ''.''
          then (if \<not> period then number_loop cs num fac True
                else number_loop [] num fac period)
          else if c = Ch CHR ''e'' \<or> c = Ch CHR ''E''
          then (let num1 = num * fac
                in case cs of
                     [] \<Rightarrow> Some num1
                   | d # ds \<Rightarrow>
                       (let signed = (d = Ch CHR ''+'' \<or> d = Ch CHR ''-'');
                            neg = (signed \<and> d = Ch CHR ''-'');
                            ex = exponent_loop (if signed then ds else cs) 0
                        in Some (num1 * (10 powr (if neg then - ex else ex)))))
          else number_loop s num fac period)"

text \<open>\<open>internal::value_to_number\<close> itself, and \<open>json_value::as_number\<close>.\<close>

definition value_to_number :: "'a::len word list \<Rightarrow> real option" where
  "value_to_number s =
     (if s = [] then Some 0
      else if length s = 4 \<and> s ! 0 = Ch CHR ''t'' \<and> s ! 1 = Ch CHR ''r'' \<and>
              s ! 2 = Ch CHR ''u'' \<and> s ! 3 = Ch CHR ''e''
      then Some 1
      else if hd s = Ch CHR ''-'' then number_loop (tl s) 0 (- 1) False
      else number_loop s 0 1 False)"


definition as_number :: "'a::len word json_value \<Rightarrow> real option" where
  "as_number v = value_to_number (vtext v)"

text \<open>
  \<open>json_document::allocate_bool_value\<close> and \<open>allocate_null_value\<close>, as far as the value
  they build (the arena allocation apart).
\<close>

definition allocate_value :: "value_type \<Rightarrow> 'a::len word json_value" where
  "allocate_value t = json_value_ctor t []"

definition allocate_null_value :: "'a::len word json_value" where
  "allocate_null_value = allocate_value value_null"

definition allocate_bool_value :: "bool \<Rightarrow> 'a::len word json_value" where
  "allocate_bool_value val =
     (allocate_value value_bool)\<lparr>vtext := (if val then truestr else falsestr)\<rparr>"

text \<open>
  A code unit on which the outer loop of \<open>value_to_number\<close> makes no progress: not a case
  label of its \<open>switch\<close>.
\<close>

definition stuck :: "'a::len word \<Rightarrow> bool" where
  "stuck c = (\<not> is_digit_case c \<and> c \<noteq> Ch CHR ''.'' \<and> c \<noteq> Ch CHR ''e'' \<and> c \<noteq> Ch CHR ''E'')"


section \<open>The parser\<close>

text \<open>
  Parse errors go to the error handler, which never returns: a function that can call it
  returns a sum, \<open>Inl\<close> carrying the handler's two arguments. \<open>what\<close> is always one of a
  fixed set of string literals, one constructor each:
  \<^item> \<open>Expected_uXXXX\<close>: "Expected" and the pattern of a four-digit u escape;
  \<^item> \<open>Expected_hex_character\<close>: "Expected hex character (0-9, a-f, A-F)";
  \<^item> \<open>Invalid_UTF8_sequence\<close>: "Invalid UTF-8 sequence";
  \<^item> \<open>Invalid_UTF16_surrogate_pair\<close>: "Invalid UTF-16 surrogate pair";
  \<^item> \<open>Invalid_UTF16_character\<close>: "Invalid UTF-16 character";
  \<^item> \<open>Invalid_escaped_character\<close>: "Invalid escaped character";
  \<^item> \<open>Invalid_u_escape_sequence\<close>: "Invalid u escape sequence" (with its backslash);
  \<^item> \<open>Expected_UTF16_surrogate_pair\<close>: "Expected UTF-16 surrogate pair";
  \<^item> \<open>Expected_end_of_string\<close>: "Expected end-of-string" (followed by a quoted quote);
  \<^item> \<open>Expected_digit\<close>, \<open>Expected_fractional_digits\<close>, \<open>Expected_exponent_digits\<close>:
    "Expected digit", "Expected fractional digits", "Expected exponent digits";
  \<^item> \<open>Encoding_must_be_specified\<close>: "Encoding must be specified with NUL-terminated data";
  \<^item> \<open>Unable_to_determine_encoding\<close>: "Unable to determine encoding".

  \<open>where\<close> is a pointer: \<open>At i\<close> is the address of code unit \<open>i\<close> of the input buffer,
  \<open>Elsewhere\<close> an address outside it (inside a local array of the parser).
\<close>

type_synonym byte = "8 word"
type_synonym utf8_char = "8 word"
type_synonym utf16_char = "16 word"
type_synonym utf32_char = "32 word"

datatype location = At nat | Elsewhere

datatype what =
  Expected_uXXXX | Expected_hex_character | Invalid_UTF8_sequence
| Invalid_UTF16_surrogate_pair | Invalid_UTF16_character | Invalid_escaped_character
| Invalid_u_escape_sequence | Expected_UTF16_surrogate_pair | Expected_end_of_string
| Expected_digit | Expected_fractional_digits | Expected_exponent_digits
| Encoding_must_be_specified | Unable_to_determine_encoding

datatype parse_error = Parse_error what location

subsection \<open>Parse flags\<close>

definition parse_default :: "32 word" where "parse_default = 0"
definition parse_no_string_terminators :: "32 word" where "parse_no_string_terminators = push_bit 0 1"
definition parse_no_inline_translation :: "32 word" where "parse_no_inline_translation = push_bit 1 1"
definition parse_force_string_terminators :: "32 word" where "parse_force_string_terminators = push_bit 2 1"
definition parse_non_destructive :: "32 word" where
  "parse_non_destructive = parse_no_string_terminators OR parse_no_inline_translation"
definition parse_non_destructive_nul :: "32 word" where
  "parse_non_destructive_nul = parse_force_string_terminators"
definition parse_do_swap :: "32 word" where "parse_do_swap = push_bit 30 1"

subsection \<open>Encoding detection\<close>

text \<open>
  \<open>json_document::determine_encoding(data, num_bytes)\<close>. \<open>data\<close> is the memory from the
  buffer's first byte on, a function from byte offsets to bytes: the code reads bytes 0
  to 3 whatever \<open>num_bytes\<close> is. \<open>size_t\<close> has 64 bits, and \<open>size_t(-1)\<close> is the marker
  for NUL-terminated data. The 16-bit and 32-bit reads are native reads, so their value
  depends on the byte order of the machine, the parameter \<open>big_endian\<close>.
\<close>

type_synonym size_t = "64 word"

datatype encoding = unknown | utf8 | utf16 | utf16_swap | utf32 | utf32_swap

definition cutf8 :: "(nat \<Rightarrow> byte) \<Rightarrow> nat \<Rightarrow> utf8_char" where
  "cutf8 data k = data k"

definition cutf16 :: "bool \<Rightarrow> (nat \<Rightarrow> byte) \<Rightarrow> nat \<Rightarrow> utf16_char" where
  "cutf16 big_endian data k =
     (if big_endian then word_cat (data (2 * k)) (data (2 * k + 1))
      else word_cat (data (2 * k + 1)) (data (2 * k)))"

definition cutf32 :: "bool \<Rightarrow> (nat \<Rightarrow> byte) \<Rightarrow> nat \<Rightarrow> utf32_char" where
  "cutf32 big_endian data k =
     (if big_endian
      then word_cat (cutf16 True data (2 * k)) (cutf16 True data (2 * k + 1))
      else word_cat (cutf16 False data (2 * k + 1)) (cutf16 False data (2 * k)))"

definition determine_encoding ::
  "bool \<Rightarrow> (nat \<Rightarrow> byte) \<Rightarrow> size_t \<Rightarrow> parse_error + encoding" where
  "determine_encoding big_endian data num_bytes =
     (if num_bytes = - 1
      then Inl (Parse_error Encoding_must_be_specified (At 0))
      else
        (let m = num_bytes mod 4
         in if m \<noteq> 2 \<and> m \<noteq> 0 then Inr utf8
            else if cutf8 data 0 \<noteq> 0 \<and> cutf8 data 1 \<noteq> 0 then Inr utf8
            else if cutf16 big_endian data 0 \<noteq> 0 \<and> cutf16 big_endian data 1 \<noteq> 0
            then Inr (if cutf16 big_endian data 0 < 256 then utf16 else utf16_swap)
            else if cutf32 big_endian data 0 = 0
            then Inl (Parse_error Unable_to_determine_encoding (At 0))
            else Inr (if cutf32 big_endian data 0 < 256 then utf32 else utf32_swap)))"


text \<open>
  The detection rules in the words of the specification, to compare the code with: a unit
  is the number its bytes spell in the machine's byte order, and the result is an
  encoding or the error \<open>InvalidEncoding\<close>.
\<close>

definition unit16 :: "bool \<Rightarrow> (nat \<Rightarrow> byte) \<Rightarrow> nat \<Rightarrow> nat" where
  "unit16 big_endian data k =
     (if big_endian then unat (data (2 * k)) * 256 + unat (data (2 * k + 1))
      else unat (data (2 * k + 1)) * 256 + unat (data (2 * k)))"

definition unit32 :: "bool \<Rightarrow> (nat \<Rightarrow> byte) \<Rightarrow> nat \<Rightarrow> nat" where
  "unit32 big_endian data k =
     (if big_endian then unit16 True data (2 * k) * 65536 + unit16 True data (2 * k + 1)
      else unit16 False data (2 * k + 1) * 65536 + unit16 False data (2 * k))"

datatype detected = Detected encoding | InvalidEncoding

definition detect_encoding_spec :: "bool \<Rightarrow> (nat \<Rightarrow> byte) \<Rightarrow> nat \<Rightarrow> detected" where
  "detect_encoding_spec big_endian data byte_count =
     (if byte_count mod 4 \<notin> {0, 2} then Detected utf8
      else if unat (data 0) \<noteq> 0 \<and> unat (data 1) \<noteq> 0 then Detected utf8
      else if unit16 big_endian data 0 \<noteq> 0 \<and> unit16 big_endian data 1 \<noteq> 0
      then Detected (if unit16 big_endian data 0 < 256 then utf16 else utf16_swap)
      else if unit32 big_endian data 0 = 0 then InvalidEncoding
      else Detected (if unit32 big_endian data 0 < 256 then utf32 else utf32_swap))"

subsection \<open>Memory, reading and the digit classifier\<close>

text \<open>
  \<open>internal::read<Flags>(val)\<close>: the code unit as stored, or byte-swapped when the
  internal flag \<open>parse_do_swap\<close> is set. (For a one-byte unit the swapping variant is an
  \<open>assert(0)\<close>; the parser never sets \<open>parse_do_swap\<close> for UTF-8.)
\<close>

definition read :: "32 word \<Rightarrow> 'a::len word \<Rightarrow> 'a word" where
  "read Flags val =
     (if Flags AND parse_do_swap \<noteq> 0
      then (if LENGTH('a) = 16 then drop_bit 8 val OR push_bit 8 val
            else if LENGTH('a) = 32
            then push_bit 24 (val AND 0xff) OR push_bit 8 (val AND 0xff00) OR
                 (drop_bit 8 val AND 0xff00) OR drop_bit 24 val
            else val)
      else val)"

text \<open>
  The parser reads the caller's buffer through \<open>data\<close> and writes through \<open>out\<close>, which
  points either into the same buffer (in-place translation) or into a block it got from
  the arena. Both are memories, functions from unit offsets to code units, and a pointer
  says which one it points into; \<open>alloc_units\<close> is the document's \<open>alloc\<close> for a
  number of code units, a bump of the arena's top (alignment and the pool's blocks are the
  subject of the next section, and allocation failure is not modelled here).
\<close>

datatype region = Input | Arena

record 'c memory =
  input :: "nat \<Rightarrow> 'c"
  arena :: "nat \<Rightarrow> 'c"
  arena_top :: nat

type_synonym pointer = "region \<times> nat"

definition store :: "'c memory \<Rightarrow> pointer \<Rightarrow> 'c \<Rightarrow> 'c memory" where
  "store M p c =
     (case p of
        (Input, i) \<Rightarrow> M\<lparr>input := (input M)(i := c)\<rparr>
      | (Arena, i) \<Rightarrow> M\<lparr>arena := (arena M)(i := c)\<rparr>)"

definition load :: "'c memory \<Rightarrow> pointer \<Rightarrow> 'c" where
  "load M p = (case p of (Input, i) \<Rightarrow> input M i | (Arena, i) \<Rightarrow> arena M i)"

definition advance :: "pointer \<Rightarrow> nat \<Rightarrow> pointer" where
  "advance p n = (fst p, snd p + n)"

definition alloc_units :: "'c memory \<Rightarrow> nat \<Rightarrow> 'c memory \<times> pointer" where
  "alloc_units M n = (M\<lparr>arena_top := arena_top M + n\<rparr>, (Arena, arena_top M))"

definition mem_of :: "'a::len word list \<Rightarrow> nat \<Rightarrow> 'a word" where
  "mem_of xs i = (if i < length xs then xs ! i else 0)"

definition buffer :: "'c memory \<Rightarrow> nat \<Rightarrow> 'c list" where
  "buffer M n = map (input M) [0..<n]"

record string_view =
  str_begin :: pointer
  str_end :: pointer

definition units_between :: "'c memory \<Rightarrow> pointer \<Rightarrow> pointer \<Rightarrow> 'c list" where
  "units_between M b e = map (\<lambda>i. load M (fst b, i)) [snd b..<snd e]"

text \<open>
  \<open>lookup_tables::lookup_digit\<close> (true at indices \<open>0x30\<close> to \<open>0x39\<close>), \<open>digit_pred\<close>,
  \<open>skip<digit_pred, Flags>\<close> and \<open>json_document::measure_number\<close>.
\<close>

definition lookup_digit :: "nat \<Rightarrow> bool" where
  "lookup_digit i = (48 \<le> i \<and> i < 58)"

definition digit_pred :: "'a::len word \<Rightarrow> bool" where
  "digit_pred ch =
     (if LENGTH('a) > 8 \<and> ch \<ge> 256 then False else lookup_digit (unat (ucast ch :: byte)))"

function skip_digit :: "32 word \<Rightarrow> (nat \<Rightarrow> 'a::len word) \<Rightarrow> nat \<Rightarrow> nat \<Rightarrow> nat" where
  "skip_digit Flags m data end =
     (if data < end \<and> digit_pred (read Flags (m data))
      then skip_digit Flags m (data + 1) end else data)"
  by pat_completeness auto
termination
  by (relation "measure (\<lambda>(Flags, m, data, end). end - data)") auto

declare skip_digit.simps [simp del]

definition measure_number ::
  "32 word \<Rightarrow> (nat \<Rightarrow> 'a::len word) \<Rightarrow> nat \<Rightarrow> nat \<Rightarrow> parse_error + (nat \<times> nat)" where
  "measure_number Flags m start end =
     (let data1 = (if start < end \<and> read Flags (m start) = Ch CHR ''-'' then start + 1 else start);
          int_part =
            (if data1 < end \<and> read Flags (m data1) = Ch CHR ''0'' then Inr (data1 + 1)
             else (let data2 = skip_digit Flags m data1 end
                   in if data2 = data1 then Inl (Parse_error Expected_digit (At data2))
                      else Inr data2))
      in case int_part of
           Inl e \<Rightarrow> Inl e
         | Inr data3 \<Rightarrow>
             (let frac_part =
                (if data3 < end \<and> read Flags (m data3) = Ch CHR ''.''
                 then (let data4 = skip_digit Flags m (data3 + 1) end
                       in if data4 = data3 + 1
                          then Inl (Parse_error Expected_fractional_digits (At data4))
                          else Inr data4)
                 else Inr data3)
              in case frac_part of
                   Inl e \<Rightarrow> Inl e
                 | Inr data5 \<Rightarrow>
                     (if data5 < end \<and>
                         (read Flags (m data5) = Ch CHR ''e'' \<or> read Flags (m data5) = Ch CHR ''E'')
                      then (let data6 = data5 + 1;
                                data7 = (if data6 < end \<and>
                                            (read Flags (m data6) = Ch CHR ''+'' \<or>
                                             read Flags (m data6) = Ch CHR ''-'')
                                         then data6 + 1 else data6);
                                data8 = skip_digit Flags m data7 end
                            in if data8 = data7
                               then Inl (Parse_error Expected_exponent_digits (At data8))
                               else Inr (data8, data8 - start))
                      else Inr (data5, data5 - start))))"

subsection \<open>Numbers, for a 16-bit document reading 16-bit input\<close>

text \<open>
  \<open>unicode_converter<Flags, ChIn, ChOut, 2, 2>::convert\<close> and
  \<open>json_document::parse_number\<close> at \<open>Ch = ChIn = utf16_char\<close>; the value's \<open>value_\<close> and
  \<open>valueend_\<close> are returned as a view.
\<close>

definition convert_16_16 ::
  "32 word \<Rightarrow> utf16_char memory \<Rightarrow> nat \<Rightarrow> nat \<Rightarrow> pointer
     \<Rightarrow> parse_error + (utf16_char memory \<times> nat \<times> pointer)" where
  "convert_16_16 Flags M inp end out =
     (let c = read Flags (input M inp);
          M1 = store M out c;
          out1 = advance out 1;
          in1 = inp + 1
      in if c \<ge> 0xd800 \<and> c < 0xdc00
         then (let c2 = read Flags (input M1 (inp + 1))
               in if c2 < 0xdc00 \<or> c2 > 0xdfff
                  then Inl (Parse_error Invalid_UTF16_surrogate_pair (At in1))
                  else Inr (store M1 out1 c2, in1 + 1, advance out1 1))
         else Inr (M1, in1, out1))"

lemma convert_16_16_advances:
  "convert_16_16 Flags M inp end out = Inr (M', inp', out') \<Longrightarrow> inp < inp'"
  by (auto simp: convert_16_16_def Let_def split: if_splits)

function convert_loop_16 ::
  "32 word \<Rightarrow> utf16_char memory \<Rightarrow> nat \<Rightarrow> nat \<Rightarrow> pointer
     \<Rightarrow> parse_error + (utf16_char memory \<times> nat)" where
  "convert_loop_16 Flags M data num_end out =
     (if data < num_end
      then (case convert_16_16 Flags M data num_end out of
              Inl e \<Rightarrow> Inl e
            | Inr (M', data', out') \<Rightarrow> convert_loop_16 Flags M' data' num_end out')
      else Inr (M, data))"
  by pat_completeness auto
termination
  by (relation "measure (\<lambda>(Flags, M, data, num_end, out). num_end - data)")
     (auto dest: convert_16_16_advances)

declare convert_loop_16.simps [simp del]

definition parse_number_16 ::
  "32 word \<Rightarrow> utf16_char memory \<Rightarrow> nat \<Rightarrow> nat
     \<Rightarrow> parse_error + (utf16_char memory \<times> nat \<times> string_view)" where
  "parse_number_16 Flags M data end =
     (if Flags AND (parse_force_string_terminators OR parse_no_string_terminators OR parse_do_swap)
           = parse_no_string_terminators
      then (case measure_number Flags (input M) data end of
              Inl e \<Rightarrow> Inl e
            | Inr (data', chars) \<Rightarrow>
                Inr (M, data', \<lparr>str_begin = (Input, data), str_end = (Input, data')\<rparr>))
      else
        (let require_alloc = (Flags AND parse_force_string_terminators \<noteq> 0)
         in case measure_number Flags (input M) data end of
              Inl e \<Rightarrow> Inl e
            | Inr (num_end, chars) \<Rightarrow>
                (let (M1, out) =
                       (if require_alloc
                        then (let (Ma, p) = alloc_units M (chars + 1)
                              in (store Ma (advance p chars) 0, p))
                        else (M, (Input, data)));
                     out_end = advance out chars
                 in case convert_loop_16 Flags M1 data num_end out of
                      Inl e \<Rightarrow> Inl e
                    | Inr (M2, data') \<Rightarrow>
                        Inr (M2, data', \<lparr>str_begin = out, str_end = out_end\<rparr>))))"

subsection \<open>Strings, for an 8-bit document reading 8-bit input\<close>

text \<open>
  \<open>lookup_tables::utf8_lengths\<close> (indexed by the leading byte shifted right by two),
  \<open>hex_value\<close>, \<open>read_utf16\<close> (the four hex digits are read left to right), the decoder
  \<open>to_utf32<Flags, Ch, 2>::convert\<close>, the encoder \<open>from_utf32<Ch, 1>::convert\<close> (the
  units it writes, in order), the generic \<open>unicode_converter\<close> from 16-bit to 8-bit and
  its UTF-8 to UTF-8 specialisation.
\<close>

definition utf8_lengths :: "nat \<Rightarrow> nat" where
  "utf8_lengths i =
     (if i < 32 then 1 else if i < 48 then 0 else if i < 56 then 2
      else if i < 60 then 3 else if i < 62 then 4 else 0)"

definition hex_value :: "32 word \<Rightarrow> (nat \<Rightarrow> 'a::len word) \<Rightarrow> nat \<Rightarrow> parse_error + byte" where
  "hex_value Flags m text =
     (let ch = read Flags (m text)
      in if ch \<in> set (map Ch ''0123456789'') then Inr (ucast ch - Ch CHR ''0'')
         else if ch = Ch CHR ''a'' \<or> ch = Ch CHR ''A'' then Inr 10
         else if ch = Ch CHR ''b'' \<or> ch = Ch CHR ''B'' then Inr 11
         else if ch = Ch CHR ''c'' \<or> ch = Ch CHR ''C'' then Inr 12
         else if ch = Ch CHR ''d'' \<or> ch = Ch CHR ''D'' then Inr 13
         else if ch = Ch CHR ''e'' \<or> ch = Ch CHR ''E'' then Inr 14
         else if ch = Ch CHR ''f'' \<or> ch = Ch CHR ''F'' then Inr 15
         else Inl (Parse_error Expected_hex_character (At text)))"

definition read_utf16 ::
  "32 word \<Rightarrow> (nat \<Rightarrow> 'a::len word) \<Rightarrow> nat \<Rightarrow> parse_error + (utf16_char \<times> nat)" where
  "read_utf16 Flags m ptr =
     (if read Flags (m ptr) \<noteq> Ch (CHR 0x5C) then Inl (Parse_error Expected_uXXXX (At ptr))
      else if read Flags (m (ptr + 1)) \<noteq> Ch CHR ''u'' then Inl (Parse_error Expected_uXXXX (At ptr))
      else
        (case hex_value Flags m (ptr + 2) of
           Inl e \<Rightarrow> Inl e
         | Inr h0 \<Rightarrow>
        (case hex_value Flags m (ptr + 3) of
           Inl e \<Rightarrow> Inl e
         | Inr h1 \<Rightarrow>
        (case hex_value Flags m (ptr + 4) of
           Inl e \<Rightarrow> Inl e
         | Inr h2 \<Rightarrow>
        (case hex_value Flags m (ptr + 5) of
           Inl e \<Rightarrow> Inl e
         | Inr h3 \<Rightarrow>
             Inr (push_bit 12 (ucast h0) OR push_bit 8 (ucast h1) OR
                  push_bit 4 (ucast h2) OR ucast h3, ptr + 6))))))"

lemma read_utf16_advances: "read_utf16 Flags m ptr = Inr (c, ptr') \<Longrightarrow> ptr' = ptr + 6"
  by (auto simp: read_utf16_def split: if_splits sum.splits)

definition to_utf32_16 ::
  "32 word \<Rightarrow> (nat \<Rightarrow> utf16_char) \<Rightarrow> nat \<Rightarrow> nat \<Rightarrow> parse_error + (utf32_char \<times> nat)" where
  "to_utf32_16 Flags p ch end =
     (let c = read Flags (p ch)
      in if c < 0xd800 \<or> c > 0xdfff then Inr (ucast c, ch + 1)
         else if c < 0xdc00
         then (if end - ch < 2 then Inl (Parse_error Invalid_UTF16_surrogate_pair (At ch))
               else (let c2 = read Flags (p (ch + 1))
                     in if c2 < 0xdc00 \<or> c2 > 0xdfff
                        then Inl (Parse_error Invalid_UTF16_surrogate_pair (At ch))
                        else Inr ((push_bit 10 (ucast (c AND 0x3ff)) OR ucast (c AND 0x3fff))
                                    + 0x10000, ch + 2)))
         else Inl (Parse_error Invalid_UTF16_character (At ch)))"

definition from_utf32_8 :: "utf32_char \<Rightarrow> utf8_char list" where
  "from_utf32_8 c =
     (if c \<le> 0x7f then [ucast c]
      else if c \<le> 0x7ff
      then [ucast (0xc0 + (drop_bit 6 c AND 0x3f)), ucast (0x80 + (c AND 0x3f))]
      else if c < 0x10000
      then [ucast (0xe0 + (drop_bit 12 c AND 0x0f)), ucast (0x80 + (drop_bit 6 c AND 0x3f)),
            ucast (0x80 + (c AND 0x3f))]
      else [ucast (0xf0 + (drop_bit 18 c AND 0x07)), ucast (0x80 + (drop_bit 12 c AND 0x3f)),
            ucast (0x80 + (drop_bit 6 c AND 0x3f)), ucast (0x80 + (c AND 0x3f))])"

fun store_list :: "'c memory \<Rightarrow> pointer \<Rightarrow> 'c list \<Rightarrow> 'c memory" where
  "store_list M out [] = M"
| "store_list M out (x # xs) = store_list (store M out x) (advance out 1) xs"

definition convert_16_8 ::
  "32 word \<Rightarrow> (nat \<Rightarrow> utf16_char) \<Rightarrow> nat \<Rightarrow> nat \<Rightarrow> utf8_char memory \<Rightarrow> pointer
     \<Rightarrow> parse_error + (utf8_char memory \<times> nat \<times> pointer)" where
  "convert_16_8 Flags p inp end M out =
     (case to_utf32_16 Flags p inp end of
        Inl e \<Rightarrow> Inl e
      | Inr (c, inp') \<Rightarrow>
          Inr (store_list M out (from_utf32_8 c), inp', advance out (length (from_utf32_8 c))))"

definition measure_16_8 ::
  "32 word \<Rightarrow> (nat \<Rightarrow> utf16_char) \<Rightarrow> nat \<Rightarrow> nat \<Rightarrow> parse_error + (nat \<times> nat)" where
  "measure_16_8 Flags p inp end =
     (case to_utf32_16 Flags p inp end of
        Inl e \<Rightarrow> Inl e
      | Inr (c, inp') \<Rightarrow> Inr (length (from_utf32_8 c), inp'))"

definition measure_8_8 ::
  "32 word \<Rightarrow> (nat \<Rightarrow> utf8_char) \<Rightarrow> nat \<Rightarrow> nat \<Rightarrow> parse_error + (nat \<times> nat)" where
  "measure_8_8 Flags m inp end =
     (let sz = utf8_lengths (unat (drop_bit 2 (read Flags (m inp))))
      in if sz = 0 \<or> end - inp < sz then Inl (Parse_error Invalid_UTF8_sequence (At inp))
         else Inr (sz, inp + sz))"

fun copy_units ::
  "32 word \<Rightarrow> utf8_char memory \<Rightarrow> nat \<Rightarrow> pointer \<Rightarrow> nat \<Rightarrow> utf8_char memory" where
  "copy_units Flags M inp out 0 = M"
| "copy_units Flags M inp out (Suc n) =
     copy_units Flags (store M out (read Flags (input M inp))) (inp + 1) (advance out 1) n"

definition convert_8_8 ::
  "32 word \<Rightarrow> utf8_char memory \<Rightarrow> nat \<Rightarrow> nat \<Rightarrow> pointer
     \<Rightarrow> parse_error + (utf8_char memory \<times> nat \<times> pointer)" where
  "convert_8_8 Flags M inp end out =
     (let c = read Flags (input M inp);
          sz = utf8_lengths (unat (drop_bit 2 c))
      in if sz = 0 \<or> inp + sz > end then Inl (Parse_error Invalid_UTF8_sequence (At inp))
         else Inr (copy_units Flags M inp out sz, inp + sz, advance out sz))"

definition relocate :: "location \<Rightarrow> parse_error + 'r \<Rightarrow> parse_error + 'r" where
  "relocate l r = (case r of Inl (Parse_error w x) \<Rightarrow> Inl (Parse_error w l) | Inr v \<Rightarrow> Inr v)"

definition read_utf16_pair ::
  "32 word \<Rightarrow> (nat \<Rightarrow> 'a::len word) \<Rightarrow> nat \<Rightarrow> nat \<Rightarrow> what
     \<Rightarrow> parse_error + (utf16_char \<times> utf16_char \<times> nat)" where
  "read_utf16_pair Flags m data end bad_low =
     (if end - data < 6 then Inl (Parse_error Invalid_u_escape_sequence (At data))
      else
        (case read_utf16 Flags m data of
           Inl e \<Rightarrow> Inl e
         | Inr (c0, data1) \<Rightarrow>
             if c0 \<ge> 0xd800 \<and> c0 \<le> 0xdfff
             then (if end - data1 < 6
                   then Inl (Parse_error Expected_UTF16_surrogate_pair (At data1))
                   else (case read_utf16 Flags m data1 of
                           Inl e \<Rightarrow> Inl e
                         | Inr (c1, data2) \<Rightarrow>
                             if c1 < 0xdc00 \<or> c1 > 0xdfff
                             then Inl (Parse_error bad_low (At (data2 - 6)))
                             else Inr (c0, c1, data2)))
             else Inr (c0, 0, data1)))"

lemma read_utf16_pair_advances:
  "read_utf16_pair Flags m data end bad_low = Inr (c0, c1, data') \<Longrightarrow> data < data'"
  by (auto simp: read_utf16_pair_def split: if_splits sum.splits dest!: read_utf16_advances)

lemma measure_8_8_advances: "measure_8_8 Flags m inp end = Inr (n, inp') \<Longrightarrow> inp < inp'"
  by (auto simp: measure_8_8_def Let_def split: if_splits)

lemma convert_8_8_advances: "convert_8_8 Flags M inp end out = Inr (M', inp', out') \<Longrightarrow> inp < inp'"
  by (auto simp: convert_8_8_def Let_def split: if_splits)

definition simple_escapes :: "'a::len word set" where
  "simple_escapes = set (map Ch [CHR 0x22, CHR 0x5C, CHR ''/'', CHR ''b'', CHR ''f'', CHR ''n'', CHR ''r'', CHR ''t''])"

function measure_string_loop ::
  "32 word \<Rightarrow> (nat \<Rightarrow> utf8_char) \<Rightarrow> nat \<Rightarrow> nat \<Rightarrow> 64 word \<Rightarrow> bool
     \<Rightarrow> parse_error + (bool \<times> nat \<times> 64 word)" where
  "measure_string_loop Flags m data end outlen translate_required =
     (if data < end
      then (let c = read Flags (m data)
            in if c = Ch (CHR 0x22) then Inr (translate_required, data, outlen)
               else if c = Ch (CHR 0x5C)
               then (if data + 1 \<ge> end
                     then Inl (Parse_error Invalid_escaped_character (At (data + 1)))
                     else (let e = read Flags (m (data + 1))
                           in if e \<in> simple_escapes
                              then measure_string_loop Flags m (data + 2) end (outlen + 1) True
                              else if e = Ch CHR ''u''
                              then (case read_utf16_pair Flags m data end
                                           Expected_UTF16_surrogate_pair of
                                      Inl err \<Rightarrow> Inl err
                                    | Inr (cu0, cu1, data') \<Rightarrow>
                                        (case relocate Elsewhere
                                                (measure_16_8 0 (mem_of [cu0, cu1]) 0 2) of
                                           Inl err \<Rightarrow> Inl err
                                         | Inr (n, p') \<Rightarrow>
                                             measure_string_loop Flags m data' end
                                               (outlen + of_nat n) True))
                              else Inl (Parse_error Invalid_escaped_character (At (data + 1)))))
               else if c = 0 then Inl (Parse_error Expected_end_of_string (At data))
               else (case measure_8_8 Flags m data end of
                       Inl err \<Rightarrow> Inl err
                     | Inr (n, data') \<Rightarrow>
                         measure_string_loop Flags m data' end (outlen + of_nat n)
                           translate_required))
      else Inl (Parse_error Expected_end_of_string (At data)))"
  by pat_completeness auto
termination
  by (relation "measure (\<lambda>(Flags, m, data, end, outlen, tr). end - data)")
     (auto dest: read_utf16_pair_advances measure_8_8_advances)

declare measure_string_loop.simps [simp del]


function parse_string_loop ::
  "32 word \<Rightarrow> utf8_char memory \<Rightarrow> nat \<Rightarrow> nat \<Rightarrow> pointer
     \<Rightarrow> parse_error + (utf8_char memory \<times> nat \<times> pointer)" where
  "parse_string_loop Flags M data end out =
     (if data < end
      then (let c = read Flags (input M data)
            in if c = Ch (CHR 0x22) then Inr (store M out 0, data + 1, out)
               else if c = Ch (CHR 0x5C)
               then (let e = read Flags (input M (data + 1))
                     in if e = Ch (CHR 0x22) \<or> e = Ch (CHR 0x5C) \<or> e = Ch CHR ''/''
                        then (case convert_8_8 Flags M (data + 1) end out of
                                Inl err \<Rightarrow> Inl err
                              | Inr (M', data', out') \<Rightarrow>
                                  parse_string_loop Flags M' data' end out')
                        else if e = Ch CHR ''b''
                        then parse_string_loop Flags (store M out 0x08) (data + 2) end (advance out 1)
                        else if e = Ch CHR ''f''
                        then parse_string_loop Flags (store M out 0x0c) (data + 2) end (advance out 1)
                        else if e = Ch CHR ''n''
                        then parse_string_loop Flags (store M out 0x0a) (data + 2) end (advance out 1)
                        else if e = Ch CHR ''r''
                        then parse_string_loop Flags (store M out 0x0d) (data + 2) end (advance out 1)
                        else if e = Ch CHR ''t''
                        then parse_string_loop Flags (store M out 0x09) (data + 2) end (advance out 1)
                        else if e = Ch CHR ''u''
                        then (case read_utf16_pair Flags (input M) data end
                                     Invalid_UTF16_surrogate_pair of
                                Inl err \<Rightarrow> Inl err
                              | Inr (c0, c1, data') \<Rightarrow>
                                  (case relocate Elsewhere
                                          (convert_16_8 0 (mem_of [c0, c1]) 0 2 M out) of
                                     Inl err \<Rightarrow> Inl err
                                   | Inr (M', p', out') \<Rightarrow>
                                       parse_string_loop Flags M' data' end out'))
                        else Inl (Parse_error Invalid_escaped_character (At (data + 1))))
               else if c = 0 then Inl (Parse_error Expected_end_of_string (At data))
               else (case convert_8_8 Flags M data end out of
                       Inl err \<Rightarrow> Inl err
                     | Inr (M', data', out') \<Rightarrow> parse_string_loop Flags M' data' end out'))
      else Inl (Parse_error Expected_end_of_string (At data)))"
  by pat_completeness auto
termination
  by (relation "measure (\<lambda>(Flags, M, data, end, out). end - data)")
     (auto dest: read_utf16_pair_advances convert_8_8_advances)

declare parse_string_loop.simps [simp del]

definition parse_string_8 ::
  "32 word \<Rightarrow> utf8_char memory \<Rightarrow> nat \<Rightarrow> nat
     \<Rightarrow> parse_error + (utf8_char memory \<times> nat \<times> string_view)" where
  "parse_string_8 Flags M data end =
     (let require_alloc0 = (Flags AND parse_force_string_terminators \<noteq> 0);
          measured =
            (if require_alloc0 \<or>
                Flags AND (parse_force_string_terminators OR parse_no_string_terminators OR
                           parse_no_inline_translation OR parse_do_swap) \<noteq> 0
             then measure_string_loop Flags (input M) data end 0 (Flags AND parse_do_swap \<noteq> 0)
             else Inr (True, data, - 1))
      in case measured of
           Inl e \<Rightarrow> Inl e
         | Inr (translate_required, strend, outlen) \<Rightarrow>
             if Flags AND parse_no_string_terminators \<noteq> 0 \<and> \<not> translate_required
             then Inr (M, strend + 1, \<lparr>str_begin = (Input, data), str_end = (Input, strend)\<rparr>)
             else
               (let require_alloc =
                      (require_alloc0 \<or> Flags AND parse_no_inline_translation \<noteq> 0);
                    (M1, out) = (if require_alloc then alloc_units M (unat (outlen + 1))
                                 else (M, (Input, data)))
                in case parse_string_loop Flags M1 data end out of
                     Inl e \<Rightarrow> Inl e
                   | Inr (M2, data', strend') \<Rightarrow>
                       Inr (M2, data', \<lparr>str_begin = out, str_end = strend'\<rparr>)))"

subsection \<open>Example inputs\<close>

text \<open>
  An 8-bit buffer holding the string literal with the escaped surrogate pair
  \<open>d834 dd1e\<close> (14 units, quotes included), and a 16-bit buffer holding the array
  \<open>[12]\<close> in byte-swapped UTF-16.
\<close>

definition clef_input :: "utf8_char memory" where
  "clef_input =
     \<lparr> input = mem_of (map Ch ([CHR 0x22, CHR 0x5C] @ ''ud834'' @ [CHR 0x5C] @ ''udd1e'' @ [CHR 0x22])),
       arena = (\<lambda>i. 0), arena_top = 0 \<rparr>"

definition swapped_12 :: "utf16_char memory" where
  "swapped_12 =
     \<lparr> input = mem_of [0x5B00, 0x3100, 0x3200, 0x5D00], arena = (\<lambda>i. 0), arena_top = 0 \<rparr>"

section \<open>The memory pool\<close>

text \<open>
  \<open>memory_pool<T_ALLOC, static_size, dynamic_size>\<close> on a 64-bit machine: pointers and
  sizes are 64-bit words, \<open>FASTJSON_ALIGNMENT\<close> and \<open>sizeof(header)\<close> are 8. The
  allocator base class \<open>T_ALLOC\<close> is the free store: it hands out blocks at fresh
  addresses and remembers which blocks are live and which were released. The header at
  the aligned front of a dynamic block holds \<open>next_pool_\<close>; \<open>next_pool\<close> is that part
  of memory. \<open>pool_\<close>, \<open>next_\<close> and \<open>end_\<close> are \<open>pool_ptr\<close>, \<open>next_ptr\<close> and \<open>end_ptr\<close>.
  \<open>clear\<close> follows the chain of headers until it meets the static pool's address, so it
  is a partial function.
\<close>

type_synonym ptr = "64 word"

record free_store =
  brk :: ptr
  live :: "(ptr \<times> size_t) list"
  released :: "(ptr \<times> size_t) list"

definition raw_heap_alloc :: "free_store \<Rightarrow> size_t \<Rightarrow> ptr \<times> free_store" where
  "raw_heap_alloc a sz = (brk a, a\<lparr>brk := brk a + sz, live := (brk a, sz) # live a\<rparr>)"

definition raw_heap_free :: "free_store \<Rightarrow> ptr \<Rightarrow> free_store" where
  "raw_heap_free a p =
     a\<lparr>live := filter (\<lambda>b. fst b \<noteq> p) (live a),
       released := filter (\<lambda>b. fst b = p) (live a) @ released a\<rparr>"

definition FASTJSON_ALIGNMENT :: size_t where
  "FASTJSON_ALIGNMENT = 8"

definition sizeof_header :: size_t where
  "sizeof_header = 8"

record memory_pool =
  static_start :: ptr
  static_size :: size_t
  dynamic_size :: size_t
  pool_ptr :: ptr
  next_ptr :: ptr
  end_ptr :: ptr
  allocator :: free_store
  next_pool :: "ptr \<Rightarrow> ptr"

definition static_pool_start :: "memory_pool \<Rightarrow> ptr" where
  "static_pool_start mp = (if static_size mp = 0 then 0 else static_start mp)"

definition static_pool_end :: "memory_pool \<Rightarrow> ptr" where
  "static_pool_end mp = (if static_size mp = 0 then 0 else static_start mp + static_size mp)"

definition align_forward :: "ptr \<Rightarrow> ptr" where
  "align_forward data = (data + (FASTJSON_ALIGNMENT - 1)) AND NOT (FASTJSON_ALIGNMENT - 1)"

definition init :: "memory_pool \<Rightarrow> memory_pool" where
  "init mp =
     (let mp1 = mp\<lparr>pool_ptr := static_pool_start mp\<rparr>;
          mp2 = mp1\<lparr>next_ptr := align_forward (pool_ptr mp1)\<rparr>
      in mp2\<lparr>end_ptr := static_pool_end mp2\<rparr>)"

definition pool_alloc :: "memory_pool \<Rightarrow> size_t \<Rightarrow> memory_pool \<times> bool" where
  "pool_alloc mp minsize =
     (let size0 = dynamic_size mp;
          size1 = (if size0 < minsize then minsize else size0);
          size2 = size1 + FASTJSON_ALIGNMENT * 2;
          size3 = size2 + sizeof_header;
          (pool, st) = raw_heap_alloc (allocator mp) size3;
          mp1 = mp\<lparr>allocator := st\<rparr>
      in if pool = 0 then (mp1, False)
         else (let h = align_forward pool;
                   mp2 = mp1\<lparr>next_pool := (next_pool mp1)(h := pool_ptr mp1)\<rparr>;
                   mp3 = mp2\<lparr>pool_ptr := pool\<rparr>;
                   mp4 = mp3\<lparr>next_ptr := align_forward (h + sizeof_header)\<rparr>
               in (mp4\<lparr>end_ptr := pool + size3\<rparr>, True)))"

definition alloc :: "memory_pool \<Rightarrow> size_t \<Rightarrow> memory_pool \<times> ptr" where
  "alloc mp sz =
     (let (mp1, ok) = (if sz > end_ptr mp - next_ptr mp then pool_alloc mp sz else (mp, True))
      in if \<not> ok then (mp1, 0)
         else (let allocd = next_ptr mp1
               in (mp1\<lparr>next_ptr := align_forward (allocd + sz)\<rparr>, allocd)))"

partial_function (option) clear :: "memory_pool \<Rightarrow> memory_pool option" where
  "clear mp =
     (if pool_ptr mp \<noteq> static_pool_start mp
      then (let nxt = next_pool mp (align_forward (pool_ptr mp));
                mp1 = mp\<lparr>allocator := raw_heap_free (allocator mp) (pool_ptr mp)\<rparr>
            in clear (mp1\<lparr>pool_ptr := nxt\<rparr>))
      else Some mp)"

text \<open>
  A pool with the default sizes (32 KiB static, 32 KiB dynamic) whose static area is at
  address \<open>0x1000\<close>, on a free store that starts at \<open>0x100000\<close>.
\<close>

definition pool0 :: memory_pool where
  "pool0 = init \<lparr> static_start = 0x1000, static_size = 32768, dynamic_size = 32768,
                  pool_ptr = 0, next_ptr = 0, end_ptr = 0,
                  allocator = \<lparr> brk = 0x100000, live = [], released = [] \<rparr>,
                  next_pool = (\<lambda>a. 0) \<rparr>"


section \<open>Properties of the document model\<close>

lemmas store_defs =
  store0_def store1_def store2_def store3_def heap_of_def array_add_def add_child_def
  is_array_def is_object_def json_object_ctor_def json_value_ctor_def Let_def

lemma example_stores_consistent:
  "consistent_children store0 1 \<and> consistent_children store1 1 \<and>
   consistent_children store2 1 \<and> consistent_children store3 1"
  by code_simp

lemma at_index_nonneg_ignores_container:
  "0 \<le> i \<Longrightarrow> at_index h this p i = at_index h this' p i"
  by (simp add: at_index_def)

text \<open>
  Claim C1 (lookup by index). The claim: for a non-negative index \<open>i\<close>, \<open>at(i)\<close> is the
  child \<open>i\<close> steps after the first child when \<open>i < child_count\<close> and the sentinel
  otherwise, and \<open>at(-1)\<close> is \<open>at(child_count - 1)\<close> in a non-empty container.
  The code does not do this: in the non-negative branch the walk starts from the local
  \<open>p\<close>, which was never set to \<open>child_\<close>. On the array with the single child at address
  2, \<open>at(0)\<close> is the sentinel when the local happens to hold a null pointer and is
  whatever value the local points at otherwise, while \<open>at(-1)\<close> is the child.
\<close>

theorem at_index_reads_uninitialised_local:
  "numchildren (store1 1) = 1 \<and> child (store1 1) = Some 2 \<and>
   at_index store1 1 None 0 = null_value \<and>
   at_index store1 1 (Some 7) 0 = 7 \<and>
   at_index store1 1 None (- 1) = 2"
  by code_simp

text \<open>
  Claim C4 (mutators keep the sibling list consistent). The claim: after every
  successful mutator call the children form a consistent doubly-linked list whose length
  is \<open>child_count\<close>, every child owned by the container.
  The code breaks this in \<open>object_set\<close> and in \<open>array_insert\<close>. Replacing the only member
  \<open>k\<close> of an object leaves \<open>lastchild_\<close> at the replaced value, never sets the new value's
  owner and never clears the old one's; inserting at index 0 into a one-element array
  leaves the new first child with itself as \<open>prev_\<close> and without an owner. Both calls
  return true, and both start from a consistent list.
\<close>

theorem mutators_break_sibling_list:
  "(case object_set store0 10 (Some (map Ch ''k'')) (Some 2) of
      Some (Inr (h, ok, old)) \<Rightarrow>
        ok \<and> consistent_children h 10 \<and>
        (case object_set h 10 (Some (map Ch ''k'')) (Some 3) of
           Some (Inr (h', ok', old')) \<Rightarrow>
             ok' \<and> old' = Some 2 \<and> \<not> consistent_children h' 10 \<and>
             child (h' 10) = Some 3 \<and> lastchild (h' 10) = Some 2 \<and>
             owner (h' 3) = None \<and> owner (h' 2) = Some 10
         | _ \<Rightarrow> False)
    | _ \<Rightarrow> False) \<and>
   consistent_children store1 1 \<and>
   (case array_insert store1 1 (Some 3) 0 of
      (h, ok) \<Rightarrow>
        ok \<and> \<not> consistent_children h 1 \<and> child (h 1) = Some 3 \<and>
        prev (h 3) = Some 3 \<and> owner (h 3) = None)"
proof -
  have replace: "(case object_set store0 10 (Some (map Ch ''k'')) (Some 2) of
      Some (Inr (h, ok, old)) \<Rightarrow>
        ok \<and> consistent_children h 10 \<and>
        (case object_set h 10 (Some (map Ch ''k'')) (Some 3) of
           Some (Inr (h', ok', old')) \<Rightarrow>
             ok' \<and> old' = Some 2 \<and> \<not> consistent_children h' 10 \<and>
             child (h' 10) = Some 3 \<and> lastchild (h' 10) = Some 2 \<and>
             owner (h' 3) = None \<and> owner (h' 2) = Some 10
         | _ \<Rightarrow> False)
    | _ \<Rightarrow> False)"
    by (simp add: object_set_def object_set_scan.simps store_defs consistent_children_def
          Ch_def)
  have start: "consistent_children store1 1"
    by code_simp
  have insert: "(case array_insert store1 1 (Some 3) 0 of
      (h, ok) \<Rightarrow>
        ok \<and> \<not> consistent_children h 1 \<and> child (h 1) = Some 3 \<and>
        prev (h 3) = Some 3 \<and> owner (h 3) = None)"
    by code_simp
  from replace start insert show ?thesis
    by (intro conjI)
qed

text \<open>
  Both failing calls of C4 are calls the mutators accept: the array is an array holding a
  consistent list, the inserted value is unowned, and \<open>array_insert\<close> returns true.
\<close>

theorem mutators_break_sibling_list_witness:
  "is_array (store1 1) \<and> owner (store1 3) = None \<and> consistent_children store1 1 \<and>
   snd (array_insert store1 1 (Some 3) 0)"
proof -
  have accepted: "is_array (store1 1) \<and> owner (store1 3) = None"
    by code_simp
  have "consistent_children store1 1 \<and> snd (array_insert store1 1 (Some 3) 0)"
    using mutators_break_sibling_list by (simp add: case_prod_beta)
  with accepted show ?thesis
    by simp
qed

text \<open>
  Claim C5 (\<open>array_insert\<close> positions), as stated: \<open>array_insert(v, INT_MIN)\<close> makes \<open>v\<close>
  the first child with the former first child as its next sibling, \<open>array_insert(v,
  INT_MAX)\<close> appends \<open>v\<close>, \<open>array_insert(v, -1)\<close> puts \<open>v\<close> immediately before the current
  last child, and \<open>v\<close>'s owner becomes the array.
  It fails. For a negative index the code links \<open>v\<close> behind the child it stops at, so
  \<open>-1\<close> appends: on the array \<open>[2, 3]\<close>, \<open>v\<close> lands after the last child 3, whose
  \<open>next_\<close> becomes \<open>v\<close>, while 2 keeps 3 as its next sibling. (The same run, and the runs
  with \<open>INT_MIN\<close> and \<open>INT_MAX\<close> on the array \<open>[2]\<close>, also show what C4 is about: \<open>v\<close>'s
  owner is never set and \<open>v\<close>'s own links are wrong.)
\<close>

theorem array_insert_misplaces:
  "(case array_insert store2 1 (Some 4) (- 1) of
      (h, ok) \<Rightarrow>
        ok \<and> child (h 1) = Some 2 \<and> next (h 2) = Some 3 \<and> next (h 3) = Some 4 \<and>
        next (h 4) = Some 4 \<and> lastchild (h 1) = Some 4 \<and> owner (h 4) = None) \<and>
   (case array_insert store1 1 (Some 3) INT_MIN of
      (h, ok) \<Rightarrow>
        ok \<and> child (h 1) = Some 3 \<and> next (h 3) = None \<and> prev (h 2) = Some 3 \<and>
        owner (h 3) = None) \<and>
   (case array_insert store1 1 (Some 3) INT_MAX of
      (h, ok) \<Rightarrow>
        ok \<and> lastchild (h 1) = Some 3 \<and> next (h 2) = Some 3 \<and> prev (h 3) = None \<and>
        owner (h 3) = None)"
  by code_simp

lemma insert_walk_next_end:
  "next_path h (deref h this pp) xs \<Longrightarrow> int (length xs) \<le> k \<Longrightarrow>
   insert_walk_next h this k pp = (if xs = [] then pp else Slot_next (last xs))"
proof (induction xs arbitrary: pp k)
  case Nil
  then show ?case by (simp add: insert_walk_next.simps)
next
  case (Cons a as)
  from Cons.prems have d: "deref h this pp = Some a" and p: "next_path h (next (h a)) as"
    and k: "int (length as) \<le> k - 1" "0 < k"
    by auto
  have "insert_walk_next h this k pp = insert_walk_next h this (k - 1) (Slot_next a)"
    using d k by (subst insert_walk_next.simps) simp
  also have "\<dots> = (if as = [] then Slot_next a else Slot_next (last as))"
    using Cons.IH [of "Slot_next a" "k - 1"] p k by simp
  finally show ?case by simp
qed

lemma insert_walk_prev_end:
  "prev_path h (deref h this pp) ys \<Longrightarrow> int (length ys) < - k \<Longrightarrow>
   insert_walk_prev h this k pp = (if ys = [] then pp else Slot_prev (last ys))"
proof (induction ys arbitrary: pp k)
  case Nil
  then show ?case by (simp add: insert_walk_prev.simps)
next
  case (Cons a as)
  from Cons.prems have d: "deref h this pp = Some a" and p: "prev_path h (prev (h a)) as"
    and k: "int (length as) < - (k + 1)" "k + 1 < 0"
    by auto
  have "insert_walk_prev h this k pp = insert_walk_prev h this (k + 1) (Slot_prev a)"
    using d k by (subst insert_walk_prev.simps) simp
  also have "\<dots> = (if as = [] then Slot_prev a else Slot_prev (last as))"
    using Cons.IH [of "Slot_prev a" "k + 1"] p k by simp
  finally show ?case by simp
qed

lemma next_path_last: "next_path h p xs \<Longrightarrow> xs \<noteq> [] \<Longrightarrow> next (h (last xs)) = None"
  by (induction xs arbitrary: p) (auto split: if_splits)

lemma prev_path_last: "prev_path h p ys \<Longrightarrow> ys \<noteq> [] \<Longrightarrow> prev (h (last ys)) = None"
  by (induction ys arbitrary: p) (auto split: if_splits)

lemma array_insert_INT_MAX:
  assumes "is_array (h this)" "owner (h v) = None" "next_path h (child (h this)) xs"
    "int (length xs) < 2 ^ 31"
  shows "(case array_insert h this (Some v) INT_MAX of
            (h', ok) \<Rightarrow> ok \<and> lastchild (h' this) = Some v \<and>
              (if xs = [] then child (h' this) = Some v else next (h' (last xs)) = Some v))"
proof -
  have pp: "insert_walk_next h this INT_MAX Slot_child =
              (if xs = [] then Slot_child else Slot_next (last xs))"
    using insert_walk_next_end [of h this Slot_child xs INT_MAX] assms(3,4)
    by (simp add: INT_MAX_def)
  show ?thesis
  proof (cases "xs = []")
    case True
    with assms pp show ?thesis
      by (simp add: array_insert_def INT_MAX_def Let_def)
  next
    case False
    with assms pp next_path_last [OF assms(3) False] show ?thesis
      by (simp add: array_insert_def INT_MAX_def Let_def)
  qed
qed

lemma array_insert_INT_MIN:
  assumes "is_array (h this)" "owner (h v) = None" "prev_path h (lastchild (h this)) ys"
    "int (length ys) < 2 ^ 31"
  shows "(case array_insert h this (Some v) INT_MIN of
            (h', ok) \<Rightarrow> ok \<and> child (h' this) = Some v \<and>
              (if ys = [] then lastchild (h' this) = Some v else prev (h' (last ys)) = Some v))"
proof -
  have pp: "insert_walk_prev h this INT_MIN Slot_lastchild =
              (if ys = [] then Slot_lastchild else Slot_prev (last ys))"
    using insert_walk_prev_end [of h this Slot_lastchild ys INT_MIN] assms(3,4)
    by (simp add: INT_MIN_def)
  show ?thesis
  proof (cases "ys = []")
    case True
    with assms pp show ?thesis
      by (simp add: array_insert_def INT_MIN_def Let_def)
  next
    case False
    with assms pp prev_path_last [OF assms(3) False] show ?thesis
      by (simp add: array_insert_def INT_MIN_def Let_def)
  qed
qed

lemma array_insert_minus_one:
  assumes "is_array (h this)" "owner (h v) = None"
  shows "(case array_insert h this (Some v) (- 1) of
            (h', ok) \<Rightarrow> ok \<and> lastchild (h' this) = Some v \<and>
              (case lastchild (h this) of
                 None \<Rightarrow> child (h' this) = Some v
               | Some l \<Rightarrow> next (h' l) = Some v))"
  using assms
  by (simp add: array_insert_def insert_walk_prev.simps Let_def split: option.splits)

text \<open>
  Claim C5, amended: for every array whose children, in order, are \<open>xs\<close> (fewer than
  \<open>2^31\<close> of them) and every unowned non-null value \<open>v\<close>, each of the three calls returns
  true, and
  \<^item> \<open>array_insert(v, INT_MIN)\<close> makes \<open>v\<close> the first child: \<open>child_\<close> is \<open>v\<close> and the
    former first child's \<open>prev_\<close> is \<open>v\<close> (in an empty array \<open>lastchild_\<close> is \<open>v\<close> too);
  \<^item> \<open>array_insert(v, INT_MAX)\<close> appends \<open>v\<close>: \<open>lastchild_\<close> is \<open>v\<close> and the former last
    child's \<open>next_\<close> is \<open>v\<close> (in an empty array \<open>child_\<close> is \<open>v\<close> too);
  \<^item> \<open>array_insert(v, -1)\<close> appends \<open>v\<close> in the same way: a negative index counts the
    place \<open>v\<close> takes from the end.

  Nothing is said of \<open>v\<close>'s owner or of \<open>v\<close>'s own \<open>prev_\<close> and \<open>next_\<close>.
\<close>

theorem array_insert_clamped_positions:
  assumes "is_array (h this)" and "owner (h v) = None"
    and "children_are h this xs" and "int (length xs) < 2 ^ 31"
  shows
    "(case array_insert h this (Some v) INT_MIN of
        (h', ok) \<Rightarrow> ok \<and> child (h' this) = Some v \<and>
          (if xs = [] then lastchild (h' this) = Some v else prev (h' (hd xs)) = Some v)) \<and>
     (case array_insert h this (Some v) INT_MAX of
        (h', ok) \<Rightarrow> ok \<and> lastchild (h' this) = Some v \<and>
          (if xs = [] then child (h' this) = Some v else next (h' (last xs)) = Some v)) \<and>
     (case array_insert h this (Some v) (- 1) of
        (h', ok) \<Rightarrow> ok \<and> lastchild (h' this) = Some v \<and>
          (if xs = [] then child (h' this) = Some v else next (h' (last xs)) = Some v))"
proof -
  from assms(3) have fwd: "next_path h (child (h this)) xs"
    and bwd: "prev_path h (lastchild (h this)) (rev xs)"
    by (simp_all add: children_are_def)
  have lc: "lastchild (h this) = (if xs = [] then None else Some (last xs))"
    using bwd by (cases xs rule: rev_cases) auto
  have first: "(case array_insert h this (Some v) INT_MIN of
        (h', ok) \<Rightarrow> ok \<and> child (h' this) = Some v \<and>
          (if xs = [] then lastchild (h' this) = Some v else prev (h' (hd xs)) = Some v))"
    using array_insert_INT_MIN [OF assms(1,2) bwd] assms(4)
    by (cases "xs = []") (simp_all add: last_rev)
  have append: "(case array_insert h this (Some v) INT_MAX of
        (h', ok) \<Rightarrow> ok \<and> lastchild (h' this) = Some v \<and>
          (if xs = [] then child (h' this) = Some v else next (h' (last xs)) = Some v))"
    using array_insert_INT_MAX [OF assms(1,2) fwd assms(4)] .
  have minus_one: "(case array_insert h this (Some v) (- 1) of
        (h', ok) \<Rightarrow> ok \<and> lastchild (h' this) = Some v \<and>
          (if xs = [] then child (h' this) = Some v else next (h' (last xs)) = Some v))"
    using array_insert_minus_one [OF assms(1,2)] lc
    by (cases "xs = []") (auto split: prod.splits)
  from first append minus_one show ?thesis
    by (intro conjI)
qed

text \<open>The amended claim on the array \<open>[2, 3]\<close> of the example store, with \<open>v\<close> at address 4.\<close>

theorem array_insert_clamped_positions_witness:
  "is_array (store2 1) \<and> owner (store2 4) = None \<and> children_are store2 1 [2, 3] \<and>
   (case array_insert store2 1 (Some 4) INT_MIN of
      (h', ok) \<Rightarrow> ok \<and> child (h' 1) = Some 4 \<and> prev (h' 2) = Some 4) \<and>
   (case array_insert store2 1 (Some 4) INT_MAX of
      (h', ok) \<Rightarrow> ok \<and> lastchild (h' 1) = Some 4 \<and> next (h' 3) = Some 4) \<and>
   (case array_insert store2 1 (Some 4) (- 1) of
      (h', ok) \<Rightarrow> ok \<and> lastchild (h' 1) = Some 4 \<and> next (h' 3) = Some 4)"
proof -
  have arr: "is_array (store2 1)" and unowned: "owner (store2 4) = None"
    by code_simp+
  have kids: "children_are store2 1 [2, 3]"
    by code_simp
  have small: "int (length [2 :: addr, 3]) < 2 ^ 31"
    by simp
  from array_insert_clamped_positions [OF arr unowned kids small] arr unowned kids
  show ?thesis
    by simp
qed

text \<open>
  Claim C6 (\<open>remove_all\<close>). The claim: after \<open>remove_all()\<close> the container is empty and
  every former child has a null owner and null sibling links.
  The code reads \<open>p->next_\<close> from the first child on every round, which the first round
  has already cleared, so the loop stops after the second child. On the array
  \<open>[2, 3, 4]\<close> the container ends up empty, the first two children are detached, and
  the third keeps its owner and its \<open>prev_\<close>; \<open>array_add\<close> then refuses it.
\<close>

theorem remove_all_leaves_third_child_owned:
  "(case remove_all store3 1 of
      Some h \<Rightarrow>
        child (h 1) = None \<and> lastchild (h 1) = None \<and> numchildren (h 1) = 0 \<and>
        owner (h 2) = None \<and> owner (h 3) = None \<and>
        owner (h 4) = Some 1 \<and> prev (h 4) = Some 3 \<and>
        array_add h 1 (Some 4) = Inr (h, False)
    | None \<Rightarrow> False)"
  by (simp add: remove_all_def remove_all_loop.simps store_defs)

text \<open>
  The call of C6 is on a well-formed array of three children, and \<open>remove_all\<close> returns.
\<close>

theorem remove_all_leaves_third_child_owned_witness:
  "is_array (store3 1) \<and> consistent_children store3 1 \<and> numchildren (store3 1) = 3 \<and>
   remove_all store3 1 \<noteq> None"
proof -
  have wf: "is_array (store3 1) \<and> consistent_children store3 1 \<and> numchildren (store3 1) = 3"
    by code_simp
  have "remove_all store3 1 \<noteq> None"
    using remove_all_leaves_third_child_owned by (auto split: option.splits)
  with wf show ?thesis
    by simp
qed

subsection \<open>The null sentinel\<close>


















section \<open>Properties of the conversion to a number\<close>

lemma number_loop_stuck:
  assumes "number_loop s num fac period = Some y"
  shows "s = [] \<or> \<not> stuck (hd s)"
  by (rule number_loop.raw_induct
        [where P = "\<lambda>s num fac period y. s = [] \<or> \<not> stuck (hd s)", OF _ assms])
     (fastforce simp: stuck_def Let_def split: list.splits if_splits)

lemma number_loop_stuck_None:
  "stuck c \<Longrightarrow> number_loop (c # cs) num fac period = None"
  using number_loop_stuck [of "c # cs" num fac period]
  by (cases "number_loop (c # cs) num fac period") auto

lemma stuck_letters:
  "stuck (Ch CHR ''f'' :: 8 word)" "stuck (Ch CHR ''n'' :: 8 word)"
  by (simp_all add: stuck_def is_digit_case_def Ch_def)

text \<open>
  Claim C9 (\<open>as_number\<close> terminates). The claim: for every text range the conversion
  loop of \<open>value_to_number\<close> reaches the end of the range and returns a double, also when
  the range holds a character that is not a digit, a period, an \<open>e\<close> or a leading minus,
  such as the text of a boolean \<open>false\<close>.
  The code does not return on such a range: the \<open>default: break;\<close> of the \<open>switch\<close>
  leaves \<open>start\<close> where it is and the \<open>while\<close> goes round again. \<open>as_number\<close> of the
  value \<open>false\<close> and of a null value never returns, in an 8-bit document; of the value
  \<open>true\<close> it is 1, by the special case in front of the loop.
\<close>

theorem as_number_false_never_returns:
  "as_number (allocate_bool_value False :: 8 word json_value) = None \<and>
   as_number (allocate_null_value :: 8 word json_value) = None \<and>
   as_number (allocate_bool_value True :: 8 word json_value) = Some 1"
proof -
  have f: "number_loop (falsestr :: 8 word list) 0 1 False = None"
    using number_loop_stuck_None [OF stuck_letters(1)] by (simp add: falsestr_def)
  have n: "number_loop (nullstr :: 8 word list) 0 1 False = None"
    using number_loop_stuck_None [OF stuck_letters(2)] by (simp add: nullstr_def)
  have "value_to_number (falsestr :: 8 word list) = None"
    using f by (simp add: value_to_number_def falsestr_def Ch_def)
  moreover have "value_to_number (nullstr :: 8 word list) = None"
    using n by (simp add: value_to_number_def nullstr_def Ch_def)
  moreover have "value_to_number (truestr :: 8 word list) = Some 1"
    by (simp add: value_to_number_def truestr_def)
  ultimately show ?thesis
    by (simp add: as_number_def allocate_bool_value_def allocate_null_value_def
          allocate_value_def json_value_ctor_def)
qed

section \<open>Properties of encoding detection\<close>

lemma unat_word_cat_8_16:
  "unat (word_cat (a :: 8 word) (b :: 8 word) :: 16 word) = unat a * 256 + unat b"
proof -
  have a: "unat a < 256" using unsigned_less [of a, where ?'a = nat] by simp
  have b: "unat b < 256" using unsigned_less [of b, where ?'a = nat] by simp
  show ?thesis
    using a b
    by (simp add: word_cat_eq push_bit_eq_mult unat_word_ariths unsigned_ucast_eq take_bit_eq_mod)
qed

lemma unat_word_cat_16_32:
  "unat (word_cat (a :: 16 word) (b :: 16 word) :: 32 word) = unat a * 65536 + unat b"
proof -
  have a: "unat a < 65536" using unsigned_less [of a, where ?'a = nat] by simp
  have b: "unat b < 65536" using unsigned_less [of b, where ?'a = nat] by simp
  show ?thesis
    using a b
    by (simp add: word_cat_eq push_bit_eq_mult unat_word_ariths unsigned_ucast_eq take_bit_eq_mod)
qed

lemma unat_cutf16: "unat (cutf16 be data k) = unit16 be data k"
  by (simp add: cutf16_def unit16_def unat_word_cat_8_16)

lemma unat_cutf32: "unat (cutf32 be data k) = unit32 be data k"
  by (simp add: cutf32_def unit32_def unat_word_cat_16_32 unat_cutf16)

lemma word_mod4_cases:
  "(num_bytes mod 4 \<noteq> 2 \<and> num_bytes mod 4 \<noteq> (0 :: 64 word)) = (unat num_bytes mod 4 \<notin> {0, 2})"
proof -
  have m: "unat (num_bytes mod 4) = unat num_bytes mod 4"
    by (simp add: unat_mod)
  have two: "(num_bytes mod 4 = 2) = (unat (num_bytes mod 4) = 2)"
    using word_unat_eq_iff [of "num_bytes mod 4" 2] by simp
  have zero: "(num_bytes mod 4 = 0) = (unat (num_bytes mod 4) = 0)"
    using word_unat_eq_iff [of "num_bytes mod 4" 0] by simp
  show ?thesis
    unfolding two zero m by auto
qed

lemma cutf8_nonzero: "(cutf8 data k \<noteq> 0) = (unat (data k) \<noteq> 0)"
  using word_unat_eq_iff [of "data k" 0] by (simp add: cutf8_def)

lemma cutf16_nonzero: "(cutf16 be data k \<noteq> 0) = (unit16 be data k \<noteq> 0)"
  using word_unat_eq_iff [of "cutf16 be data k" 0] by (simp add: unat_cutf16)

lemma cutf16_small: "(cutf16 be data k < 256) = (unit16 be data k < 256)"
  by (simp add: word_less_nat_alt unat_cutf16)

lemma cutf32_zero: "(cutf32 be data k = 0) = (unit32 be data k = 0)"
  using word_unat_eq_iff [of "cutf32 be data k" 0] by (simp add: unat_cutf32)

lemma cutf32_small: "(cutf32 be data k < 256) = (unit32 be data k < 256)"
  by (simp add: word_less_nat_alt unat_cutf32)

lemma determine_encoding_nul_terminated:
  "determine_encoding be data (- 1) = Inl (Parse_error Encoding_must_be_specified (At 0))"
  by (simp add: determine_encoding_def)

text \<open>
  Claim C10 (encoding detection). For every buffer and byte count (a byte count is not
  \<open>size_t(-1)\<close>, the marker for NUL-terminated data, which \<open>parse\<close> excludes when the
  encoding is unknown and for which detection raises its own error), detection follows
  the five rules in order: a byte count that is 1 or 3 modulo 4 is UTF-8; else two
  non-zero leading bytes are UTF-8; else two non-zero leading 16-bit units are UTF-16,
  native exactly when unit 0 is below 256; else a zero leading 32-bit unit is the error
  "Unable to determine encoding"; else UTF-32, native exactly when unit 0 is below 256.
  The units are the numbers the bytes spell in the machine's byte order.
\<close>

theorem determine_encoding_rules:
  assumes "num_bytes \<noteq> - 1"
  shows "determine_encoding be data num_bytes =
     (case detect_encoding_spec be data (unat num_bytes) of
        Detected e \<Rightarrow> Inr e
      | InvalidEncoding \<Rightarrow> Inl (Parse_error Unable_to_determine_encoding (At 0)))"
proof -
  have "determine_encoding be data num_bytes =
     (if unat num_bytes mod 4 \<notin> {0, 2} then Inr utf8
      else if unat (data 0) \<noteq> 0 \<and> unat (data 1) \<noteq> 0 then Inr utf8
      else if unit16 be data 0 \<noteq> 0 \<and> unit16 be data 1 \<noteq> 0
      then Inr (if unit16 be data 0 < 256 then utf16 else utf16_swap)
      else if unit32 be data 0 = 0
      then Inl (Parse_error Unable_to_determine_encoding (At 0))
      else Inr (if unit32 be data 0 < 256 then utf32 else utf32_swap))"
    using assms
    unfolding determine_encoding_def Let_def word_mod4_cases cutf8_nonzero cutf16_nonzero
      cutf16_small cutf32_zero cutf32_small
    by simp
  also have "\<dots> = (case detect_encoding_spec be data (unat num_bytes) of
        Detected e \<Rightarrow> Inr e
      | InvalidEncoding \<Rightarrow> Inl (Parse_error Unable_to_determine_encoding (At 0)))"
    unfolding detect_encoding_spec_def by simp
  finally show ?thesis .
qed


text \<open>
  The rules at work on a little-endian machine: the four bytes \<open>5B 00 31 00\<close> are
  UTF-16 in native order.
\<close>

theorem determine_encoding_rules_witness:
  "(4 :: 64 word) \<noteq> - 1 \<and>
   determine_encoding False (mem_of [0x5B, 0, 0x31, 0]) 4 = Inr utf16"
proof -
  have finite: "(4 :: 64 word) \<noteq> - 1"
    by simp
  have "detect_encoding_spec False (mem_of [0x5B, 0, 0x31, 0]) (unat (4 :: 64 word)) =
          Detected utf16"
    by (simp add: detect_encoding_spec_def unit16_def mem_of_def)
  with finite show ?thesis
    using determine_encoding_rules [OF finite, of False "mem_of [0x5B, 0, 0x31, 0]"]
    by simp
qed

section \<open>Properties of the memory pool\<close>

lemmas pool_defs =
  pool0_def init_def alloc_def pool_alloc_def raw_heap_alloc_def raw_heap_free_def
  static_pool_start_def static_pool_end_def align_forward_def FASTJSON_ALIGNMENT_def
  sizeof_header_def Let_def

text \<open>
  Claim C7 (\<open>clear\<close> restores the pool). The claim: after \<open>clear()\<close> no dynamic block is
  allocated and the pool is in its initial state, so that the next allocation comes from
  the static area and never from a released block.
  The code releases every block and brings \<open>pool_\<close> back to the static area, but leaves
  \<open>next_\<close> and \<open>end_\<close> where they were, inside the block it has just released (\<open>init\<close>
  is the function that sets them, and \<open>clear\<close> does not call it). A fresh pool serves 8
  bytes from its static area at \<open>0x1000\<close>; after an allocation of 40000 bytes, which needs
  a dynamic block, and \<open>clear()\<close>, the same request is served at \<open>0x109C48\<close>, inside
  the released block \<open>[0x100000, 0x100000 + 40024)\<close>.
\<close>

theorem clear_leaves_cursor_in_released_block:
  "snd (alloc pool0 8) = 0x1000 \<and>
   (case clear (fst (alloc pool0 40000)) of
      Some mp \<Rightarrow>
        live (allocator mp) = [] \<and> released (allocator mp) = [(0x100000, 40024)] \<and>
        pool_ptr mp = static_pool_start mp \<and>
        next_ptr mp \<noteq> next_ptr pool0 \<and> end_ptr mp \<noteq> end_ptr pool0 \<and>
        snd (alloc mp 8) = 0x109C48 \<and>
        0x100000 \<le> snd (alloc mp 8) \<and> snd (alloc mp 8) < 0x100000 + 40024
    | None \<Rightarrow> False)"
  by (simp add: clear.simps pool_defs)

section \<open>Properties of the parser\<close>

lemma surrogate_pair_decoded:
  "to_utf32_16 0 (mem_of [0xd834, 0xdd1e]) 0 2 = Inr (0x1D834, 2)"
  by (simp add: to_utf32_16_def read_def mem_of_def)

lemma encoder_is_utf8:
  "from_utf32_8 0x1D11E = [0xF0, 0x9D, 0x84, 0x9E] \<and>
   from_utf32_8 0x1D834 = [0xF0, 0x9D, 0xA0, 0xB4]"
  by (simp add: from_utf32_8_def)

text \<open>
  Claim C2 (escaped surrogate pair). The claim: a string holding the escapes
  \<open>d834\<close>, \<open>dd1e\<close> decodes to the one code point U+1D11E, stored in an 8-bit document as
  the bytes \<open>F0 9D 84 9E\<close>.
  The code: the decoder \<open>to_utf32\<close> for 16-bit units combines the high surrogate with
  itself (masked with \<open>0x3fff\<close>) instead of with the low surrogate, so the pair decodes
  to U+1D834 and the stored bytes are \<open>F0 9D A0 B4\<close>, whether the string is translated
  in place (default flags) or copied to the arena (\<open>parse_non_destructive\<close>). The
  encoder is not at fault.
\<close>

theorem surrogate_pair_is_misdecoded:
  "(case parse_string_8 parse_default clef_input 1 14 of
      Inr (M, data, v) \<Rightarrow>
        data = 14 \<and> units_between M (str_begin v) (str_end v) = [0xF0, 0x9D, 0xA0, 0xB4]
    | Inl e \<Rightarrow> False) \<and>
   (case parse_string_8 parse_non_destructive clef_input 1 14 of
      Inr (M, data, v) \<Rightarrow>
        data = 14 \<and> units_between M (str_begin v) (str_end v) = [0xF0, 0x9D, 0xA0, 0xB4]
    | Inl e \<Rightarrow> False) \<and>
   to_utf32_16 0 (mem_of [0xd834, 0xdd1e]) 0 2 = Inr (0x1D834, 2) \<and>
   from_utf32_8 0x1D11E = [0xF0, 0x9D, 0x84, 0x9E]"
proof -
  have inplace: "(case parse_string_8 parse_default clef_input 1 14 of
      Inr (M, data, v) \<Rightarrow>
        data = 14 \<and> units_between M (str_begin v) (str_end v) = [0xF0, 0x9D, 0xA0, 0xB4]
    | Inl e \<Rightarrow> False)"
    by code_simp
  have copied: "(case parse_string_8 parse_non_destructive clef_input 1 14 of
      Inr (M, data, v) \<Rightarrow>
        data = 14 \<and> units_between M (str_begin v) (str_end v) = [0xF0, 0x9D, 0xA0, 0xB4]
    | Inl e \<Rightarrow> False)"
    by code_simp
  from inplace copied surrogate_pair_decoded encoder_is_utf8 show ?thesis
    by (intro conjI) simp_all
qed

subsection \<open>What the non-destructive flags do protect\<close>

text \<open>
  With \<open>parse_no_inline_translation\<close> set, a \<open>parse_string\<close> that returns has written
  only to the block it allocated, whatever the string holds; and \<open>parse_number\<close> changes
  nothing when it can take its shortcut (same width, no swap,
  \<open>parse_no_string_terminators\<close>).
\<close>

lemma input_store_Arena: "input (store M (Arena, i) c) = input M"
  by (simp add: store_def)

lemma advance_Arena: "advance (Arena, i) n = (Arena, i + n)"
  by (simp add: advance_def)

lemma input_store_list_Arena: "input (store_list M (Arena, i) xs) = input M"
  by (induction xs arbitrary: M i) (simp_all add: input_store_Arena advance_Arena)

lemma input_copy_units_Arena: "input (copy_units Flags M inp (Arena, i) n) = input M"
  by (induction n arbitrary: M inp i) (simp_all add: input_store_Arena advance_Arena)

lemma convert_8_8_Arena:
  "convert_8_8 Flags M inp end (Arena, i) = Inr (M', inp', out') \<Longrightarrow>
   input M' = input M \<and> fst out' = Arena"
  by (auto simp: convert_8_8_def Let_def input_copy_units_Arena advance_Arena split: if_splits)

lemma convert_16_8_Arena:
  "relocate l (convert_16_8 Flags p inp end M (Arena, i)) = Inr (M', inp', out') \<Longrightarrow>
   input M' = input M \<and> fst out' = Arena"
  by (auto simp: convert_16_8_def relocate_def input_store_list_Arena advance_Arena
      split: sum.splits parse_error.splits)

lemma parse_string_loop_Arena:
  "parse_string_loop Flags M data e (Arena, i) = Inr (M', data', strend) \<Longrightarrow>
   input M' = input M"
proof (induction "e - data" arbitrary: M data i rule: less_induct)
  case less
  note step = less.prems [unfolded parse_string_loop.simps [of Flags M data e "(Arena, i)"]]
  have IH: "input M' = input M1"
    if "data < d1" "d1 \<le> e \<or> data < e" "parse_string_loop Flags M1 d1 e (Arena, j) = Inr (M', data', strend)"
    for M1 d1 j
    using less.hyps [of d1 M1 j] that by (cases "data < e") auto
  show ?case
  proof (cases "data < e")
    case False
    with step show ?thesis by simp
  next
    case True
    let ?c = "read Flags (input M data)"
    let ?e = "read Flags (input M (data + 1))"
    consider (quote) "?c = Ch (CHR 0x22)"
      | (escape) "?c \<noteq> Ch (CHR 0x22)" "?c = Ch (CHR 0x5C)"
      | (nul) "?c \<noteq> Ch (CHR 0x22)" "?c \<noteq> Ch (CHR 0x5C)" "?c = 0"
      | (plain) "?c \<noteq> Ch (CHR 0x22)" "?c \<noteq> Ch (CHR 0x5C)" "?c \<noteq> 0"
      by blast
    then show ?thesis
    proof cases
      case quote
      with True step show ?thesis
        by (auto simp: input_store_Arena)
    next
      case nul
      with True step show ?thesis by simp
    next
      case plain
      with True step obtain M1 d1 o1 where
        c: "convert_8_8 Flags M data e (Arena, i) = Inr (M1, d1, o1)" and
        r: "parse_string_loop Flags M1 d1 e o1 = Inr (M', data', strend)"
        by (auto simp: Let_def split: sum.splits)
      from convert_8_8_Arena [OF c] obtain j where o1: "o1 = (Arena, j)" and i1: "input M1 = input M"
        by (cases o1) auto
      from IH [OF convert_8_8_advances [OF c] _ r [unfolded o1]] True i1
      show ?thesis by simp
    next
      case escape
      have simple: "input M' = input M"
        if "parse_string_loop Flags (store M (Arena, i) x) (data + 2) e (advance (Arena, i) 1) =
              Inr (M', data', strend)" for x
        using IH [of "data + 2" "store M (Arena, i) x" "i + 1"] that True
        by (simp add: advance_Arena input_store_Arena)
      have copy: "input M' = input M"
        if c: "convert_8_8 Flags M (data + 1) e (Arena, i) = Inr (M1, d1, o1)"
          and r: "parse_string_loop Flags M1 d1 e o1 = Inr (M', data', strend)" for M1 d1 o1
      proof -
        from convert_8_8_Arena [OF c] obtain j where o1: "o1 = (Arena, j)"
          and i1: "input M1 = input M"
          by (cases o1) auto
        from convert_8_8_advances [OF c] have "data < d1" by simp
        from IH [OF this _ r [unfolded o1]] True i1 show ?thesis by simp
      qed
      have u: "input M' = input M"
        if p: "read_utf16_pair Flags (input M) data e Invalid_UTF16_surrogate_pair =
                 Inr (c0, c1, d1)"
          and c: "relocate Elsewhere (convert_16_8 0 (mem_of [c0, c1]) 0 2 M (Arena, i)) =
                    Inr (M1, p1, o1)"
          and r: "parse_string_loop Flags M1 d1 e o1 = Inr (M', data', strend)"
        for c0 c1 d1 M1 p1 o1
      proof -
        from convert_16_8_Arena [OF c] obtain j where o1: "o1 = (Arena, j)"
          and i1: "input M1 = input M"
          by (cases o1) auto
        from IH [OF read_utf16_pair_advances [OF p] _ r [unfolded o1]] True i1
        show ?thesis by simp
      qed
      from escape True step show ?thesis
        by (auto simp: Let_def split: if_splits sum.splits intro: simple copy u)
    qed
  qed
qed


lemma parse_string_keeps_input:
  assumes "Flags AND parse_no_inline_translation \<noteq> 0"
    and "parse_string_8 Flags M data e = Inr (M', data', v)"
  shows "input M' = input M"
  using assms
  by (auto simp: parse_string_8_def Let_def alloc_units_def split: sum.splits if_splits
      dest!: parse_string_loop_Arena)

lemma parse_number_keeps_input_unswapped:
  assumes "Flags AND (parse_force_string_terminators OR parse_no_string_terminators OR
                      parse_do_swap) = parse_no_string_terminators"
    and "parse_number_16 Flags M data e = Inr (M', data', v)"
  shows "M' = M"
  using assms by (auto simp: parse_number_16_def split: sum.splits)

text \<open>
  Claim C3 (non-destructive parse). The claim: with \<open>parse_non_destructive\<close> every byte
  of the input buffer is the same after the parse as before, for every input encoding,
  the byte-swapped ones included.
  The code: \<open>parse_number\<close> takes its shortcut only when no swap is needed and otherwise
  allocates only for \<open>parse_force_string_terminators\<close> or a wider document; it never
  looks at \<open>parse_no_inline_translation\<close> (\<open>parse_string\<close> does). For byte-swapped
  UTF-16 read into a 16-bit document it therefore converts the number where it stands.
  In the buffer holding \<open>[12]\<close> the two units of the number, \<open>3100 3200\<close>, have become
  \<open>0031 0032\<close> when \<open>parse_number\<close> returns.
\<close>

theorem parse_number_rewrites_swapped_input:
  "buffer swapped_12 4 = [0x5B00, 0x3100, 0x3200, 0x5D00] \<and>
   (case parse_number_16 (parse_non_destructive OR parse_do_swap) swapped_12 1 4 of
      Inr (M, data, v) \<Rightarrow>
        data = 3 \<and> buffer M 4 = [0x5B00, 0x0031, 0x0032, 0x5D00] \<and>
        str_begin v = (Input, 1) \<and> str_end v = (Input, 3)
    | Inl e \<Rightarrow> False)"
  by code_simp

end
